theory Spec2Isabelle
  imports Main "HOL-Library.AList" "HOL-Library.Sublist"
begin

section \<open>Python strings and the process environment\<close>

text \<open>
  The three task scripts read their configuration from \<^verbatim>\<open>os.environ\<close>. A Python
  \<^verbatim>\<open>str\<close> is modelled as a \<^typ>\<open>string\<close>, \<^verbatim>\<open>os.environ\<close> as a partial map, and
  \<^verbatim>\<open>os.environ.get(k)\<close> as the lookup itself (\<open>None\<close> when the variable is absent).
\<close>

type_synonym environ = "string \<rightharpoonup> string"

definition environ_get :: "environ \<Rightarrow> string \<Rightarrow> string \<Rightarrow> string" where
  \<comment> \<open>\<^verbatim>\<open>os.environ.get(k, d)\<close>\<close>
  "environ_get env k d = (case env k of None \<Rightarrow> d | Some v \<Rightarrow> v)"

definition truthy :: "string option \<Rightarrow> bool" where
  \<comment> \<open>Python truth value of an optional string: \<^verbatim>\<open>None\<close> and \<^verbatim>\<open>''\<close> are false.\<close>
  "truthy v = (case v of None \<Rightarrow> False | Some s \<Rightarrow> s \<noteq> [])"

definition py_format :: "string option \<Rightarrow> string" where
  \<comment> \<open>How an f-string renders a value that is \<^verbatim>\<open>None\<close> or a \<^verbatim>\<open>str\<close>.\<close>
  "py_format v = (case v of None \<Rightarrow> ''None'' | Some s \<Rightarrow> s)"

fun split_sep :: "char \<Rightarrow> string \<Rightarrow> string list" where
  \<comment> \<open>\<^verbatim>\<open>s.split(sep)\<close> for a separator of one character: never an empty list.\<close>
  "split_sep sep [] = [[]]"
| "split_sep sep (c # cs) =
     (if c = sep then [] # split_sep sep cs
      else (case split_sep sep cs of
              [] \<Rightarrow> [[c]]
            | w # ws \<Rightarrow> (c # w) # ws))"

definition lower_char :: "char \<Rightarrow> char" where
  \<comment> \<open>\<^verbatim>\<open>str.lower\<close> on one ASCII character. Strings are byte strings here: the case
      mapping of characters beyond ASCII is not modelled, and their bytes are left as they
      are, so what is proved about a lowercased name is proved for ASCII names.\<close>
  "lower_char c =
     (let n = (of_char c :: nat) in if 65 \<le> n \<and> n \<le> 90 then char_of (n + 32) else c)"

definition py_lower :: "string \<Rightarrow> string" where
  "py_lower s = map lower_char s"

definition is_space :: "char \<Rightarrow> bool" where
  \<comment> \<open>The ASCII characters \<^verbatim>\<open>str.strip()\<close> removes.\<close>
  "is_space c = (let n = (of_char c :: nat) in (9 \<le> n \<and> n \<le> 13) \<or> (28 \<le> n \<and> n \<le> 32))"

definition py_strip :: "string \<Rightarrow> string" where
  "py_strip s = rev (dropWhile is_space (rev (dropWhile is_space s)))"

definition skip_requested :: "environ \<Rightarrow> bool" where
  \<comment> \<open>\<^verbatim>\<open>os.environ.get('SKIP_TASK') in os.environ.get('SKIP_TASKS', '').split(',')\<close>:
      \<^verbatim>\<open>None\<close> is an element of no list of strings.\<close>
  "skip_requested env =
     (case env ''SKIP_TASK'' of
        None \<Rightarrow> False
      | Some t \<Rightarrow> t \<in> set (split_sep (CHR '','') (environ_get env ''SKIP_TASKS'' [])))"

section \<open>Observable effects\<close>

text \<open>
  A run of a script is its exit code together with the sequence of effects it performed, in
  program order: lines printed or logged, an uncaught exception's traceback, constructions
  of a client of a remote service, calls to a remote service, writes to the process
  environment and writes to the file system. A printed or logged line is recorded as the
  format string of the statement that emits it, cut down to its ASCII letters, with the
  values interpolated into it. The \<^verbatim>\<open>upload-timestamp\<close> entry of an upload's
  metadata is the wall clock at the call and is left out of the recorded metadata.
\<close>

datatype arg = Str string | Num nat

record registration =
  reg_name :: string
  reg_uri :: string
  reg_version :: "string option"
  reg_description :: string
  reg_model_format_name :: string
  reg_model_format_version :: string
  reg_storage_key :: string
  reg_storage_path :: string
  reg_metadata :: "(string \<times> string) list"

datatype net_call =
    Head_bucket string
  | Upload_file string string "(string \<times> string) list"
  | Register_model registration
  | Get_model_version string "string option"

datatype client =
    S3_client string string "string option"
  | Registry_client string nat string bool

datatype event =
    Print string "arg list"
  | Log_info string "arg list"
  | Log_error string "arg list"
  | Traceback
  | Construct client
  | Net net_call
  | Set_env string string
  | Write_file string string

fun is_net :: "event \<Rightarrow> bool" where
  "is_net (Net c) = True"
| "is_net e = False"

fun is_construct :: "event \<Rightarrow> bool" where
  "is_construct (Construct c) = True"
| "is_construct e = False"

fun is_write :: "event \<Rightarrow> bool" where
  "is_write (Write_file p s) = True"
| "is_write e = False"

fun is_upload :: "event \<Rightarrow> bool" where
  "is_upload (Net (Upload_file b k md)) = True"
| "is_upload e = False"

type_synonym run = "nat \<times> event list"

section \<open>The world a script runs in\<close>

text \<open>
  Everything a script reads from outside is a field of the world: which client libraries
  the interpreter can import, the environment, the files it can read, whether a path can be
  written, the directory tree under a path as \<^verbatim>\<open>Path.rglob('*')\<close> enumerates it, and the
  outcome of every call to the object store and to the model registry. A call to a client
  library either returns or raises; the outcomes the scripts tell apart in their handlers
  are separate constructors.
\<close>

record dir_entry =
  rel_path :: string
  is_file :: bool
  st_size :: nat

datatype head_outcome = Head_ok | Head_ClientError string | Head_other_error

datatype upload_outcome = Upload_ok | Upload_ClientError | Upload_other_error

datatype register_outcome = Register_ok | Register_StoreError | Register_other_error

record model_version =
  mv_id :: string
  mv_name :: string

datatype lookup_outcome =
    Lookup_version model_version
  | Lookup_none
  | Lookup_StoreError
  | Lookup_other_error

record world =
  boto3_importable :: bool
  model_registry_importable :: bool
  environ :: environ
  files :: "string \<rightharpoonup> string"
  writable :: "string \<Rightarrow> bool"
  tree :: "string \<rightharpoonup> dir_entry list"
  head_bucket :: "string \<Rightarrow> head_outcome"
  upload_file :: "string \<Rightarrow> upload_outcome"
  register_model :: "registration \<Rightarrow> register_outcome"
  get_model_version :: "nat \<Rightarrow> lookup_outcome"

definition banner :: event where
  "banner = Print ''Developed by the Red Hat AI Customer Adoption and Innovation team (CAI)'' []"

section \<open>Model Uploader (upload\_model.py)\<close>

definition model_prefix :: "string \<Rightarrow> string \<Rightarrow> string" where
  \<comment> \<open>\<^verbatim>\<open>s3_prefix = f"model-data/{model_name}/{model_version}"\<close>\<close>
  "model_prefix model_name model_ver = ''model-data/'' @ model_name @ ''/'' @ model_ver"

definition uploader_uri :: "string \<Rightarrow> string \<Rightarrow> string \<Rightarrow> string" where
  \<comment> \<open>\<^verbatim>\<open>s3_uri = f"s3://{bucket_name}/{s3_prefix}"\<close>\<close>
  "uploader_uri bucket_name model_name model_ver =
     ''s3://'' @ bucket_name @ ''/'' @ model_prefix model_name model_ver"

definition uri_file :: string where
  "uri_file = ''/workspace/shared-workspace/model_s3_uri''"

definition uploader_skip_notice :: event where
  "uploader_skip_notice = Print ''Skipping upload-model-to-s3 task'' []"

definition model_metadata :: "string \<Rightarrow> string \<Rightarrow> (string \<times> string) list" where
  "model_metadata model_name model_ver =
     [(''model-name'', model_name), (''model-version'', model_ver),
      (''source'', ''huggingface''), (''pipeline'', ''modelcar-pipeline'')]"

definition model_key :: "string \<Rightarrow> dir_entry \<Rightarrow> string" where
  \<comment> \<open>\<^verbatim>\<open>s3_key = f"{s3_prefix}/{relative_path}"\<close>\<close>
  "model_key s3_prefix e = s3_prefix @ ''/'' @ rel_path e"

definition model_upload_call :: "string \<Rightarrow> string \<Rightarrow> string \<Rightarrow> string \<Rightarrow> event" where
  \<comment> \<open>\<^verbatim>\<open>s3_client.upload_file(str(file_path), bucket_name, s3_key, ExtraArgs=extra_args)\<close>\<close>
  "model_upload_call bucket_name model_name model_ver s3_key =
     Net (Upload_file bucket_name s3_key (model_metadata model_name model_ver))"

definition uploaded_line :: "dir_entry \<Rightarrow> event" where
  \<comment> \<open>\<^verbatim>\<open>logger.info(f"   {relative_path} ({file_size:,} bytes)")\<close>\<close>
  "uploaded_line e =
     Log_info ''{relative_path} ({file_size:,} bytes)'' [Str (rel_path e), Num (st_size e)]"

definition upload_failed :: "string \<Rightarrow> event" where
  \<comment> \<open>\<^verbatim>\<open>logger.error(f"   Failed to upload {relative_path}: {e}")\<close>, in both upload loops.\<close>
  "upload_failed relative_path =
     Log_error ''Failed to upload {relative_path}: {e}'' [Str relative_path]"

text \<open>
  The upload loop of lines 84 to 120. The state is the pair of counters of the source and
  the effects so far; \<open>Inl\<close> is the run that ended inside the loop. A \<^verbatim>\<open>ClientError\<close>
  is logged and exits with 1; any other exception is not caught and ends the interpreter
  with 1 as well.
\<close>

fun upload_loop ::
  "(string \<Rightarrow> upload_outcome) \<Rightarrow> (string \<Rightarrow> event) \<Rightarrow> string \<Rightarrow>
   dir_entry list \<Rightarrow> nat \<times> nat \<times> event list \<Rightarrow> run + nat \<times> nat \<times> event list" where
  "upload_loop up call s3_prefix [] st = Inr st"
| "upload_loop up call s3_prefix (e # es) (uploaded_count, total_size, tr) =
     (if is_file e then
        (case up (model_key s3_prefix e) of
           Upload_ok \<Rightarrow>
             upload_loop up call s3_prefix es
               (uploaded_count + 1, total_size + st_size e,
                tr @ [call (model_key s3_prefix e), uploaded_line e])
         | Upload_ClientError \<Rightarrow>
             Inl (1, tr @ [call (model_key s3_prefix e), upload_failed (rel_path e)])
         | Upload_other_error \<Rightarrow> Inl (1, tr @ [call (model_key s3_prefix e), Traceback]))
      else upload_loop up call s3_prefix es (uploaded_count, total_size, tr))"

definition upload_report :: "nat \<Rightarrow> nat \<Rightarrow> event" where
  "upload_report uploaded_count total_size =
     Log_info ''Uploaded {uploaded_count} files ({total_size:,} bytes)''
       [Num uploaded_count, Num total_size]"

definition upload_tree ::
  "world \<Rightarrow> string \<Rightarrow> string \<Rightarrow> string \<Rightarrow> string \<Rightarrow> event list \<Rightarrow> run" where
  \<comment> \<open>Lines 72 to 134: the directory check, the loop, the locator file and the summary.\<close>
  "upload_tree w bucket_name model_name model_ver workspace_path tr =
     (case tree w workspace_path of
        None \<Rightarrow> (1, tr @ [Log_error ''Model directory not found: {model_dir}'' [Str workspace_path]])
      | Some entries \<Rightarrow>
          (let s3_prefix = model_prefix model_name model_ver;
               tr1 = tr @ [Log_info ''Uploading model to S3...'' [],
                           Log_info ''Local path: {model_dir}'' [Str workspace_path],
                           Log_info ''S3 prefix: s3://{bucket_name}/{s3_prefix}''
                             [Str bucket_name, Str s3_prefix]]
           in case upload_loop (upload_file w)
                     (model_upload_call bucket_name model_name model_ver) s3_prefix
                     entries (0, 0, tr1) of
                Inl r \<Rightarrow> r
              | Inr (uploaded_count, total_size, tr2) \<Rightarrow>
                  (let tr3 = tr2 @ [upload_report uploaded_count total_size,
                                    Log_info ''S3 Location: s3://{bucket_name}/{s3_prefix}/''
                                      [Str bucket_name, Str s3_prefix]];
                       s3_uri = uploader_uri bucket_name model_name model_ver
                   in if writable w uri_file then
                        (0, tr3 @ [Write_file uri_file s3_uri,
                                   Log_info ''Saved S3 URI to: {uri_file}'' [Str uri_file],
                                   Print ''Model upload complete!'' [],
                                   Print ''Model: {model_name} v{model_version}''
                                     [Str model_name, Str model_ver],
                                   Print ''S3 URI: {s3_uri}'' [Str s3_uri],
                                   Print ''Files: {uploaded_count} ({total_size:,} bytes)''
                                     [Num uploaded_count, Num total_size]])
                      else (1, tr3 @ [Traceback]))))"

definition upload_connect ::
  "world \<Rightarrow> string \<Rightarrow> string \<Rightarrow> string \<Rightarrow> string \<Rightarrow> event list \<Rightarrow> run" where
  \<comment> \<open>Lines 49 to 70: the client is built and the bucket is checked.\<close>
  "upload_connect w bucket_name access_key secret_key model_name tr =
     (let endpoint_url = environ w ''S3_ENDPOINT_URL'';
          model_ver = environ_get (environ w) ''MODEL_VERSION'' ''1.0.0'';
          workspace_path =
            environ_get (environ w) ''WORKSPACE_PATH'' ''/workspace/shared-workspace/model'';
          tr1 = tr @ [Construct (S3_client access_key secret_key
                        (if truthy endpoint_url then endpoint_url else None)),
                      Net (Head_bucket bucket_name)]
      in case head_bucket w bucket_name of
           Head_ok \<Rightarrow>
             upload_tree w bucket_name model_name model_ver workspace_path
               (tr1 @ [Log_info ''Connected to S3 bucket: {bucket_name}'' [Str bucket_name]])
         | Head_ClientError error_code \<Rightarrow>
             (if error_code = ''404''
              then (1, tr1 @ [Log_error ''Bucket {bucket_name} does not exist'' [Str bucket_name]])
              else (1, tr1 @ [Log_error ''Error accessing bucket: {e}'' []]))
         | Head_other_error \<Rightarrow> (1, tr1 @ [Traceback]))"

definition missing_env_exit :: run where
  \<comment> \<open>Lines 44 to 47.\<close>
  "missing_env_exit =
     (1, [banner, Log_error ''Missing required environment variables'' [],
          Log_error ''Required: S3_BUCKET, AWS_ACCESS_KEY_ID, AWS_SECRET_ACCESS_KEY, MODEL_NAME'' []])"

definition upload_model :: "world \<Rightarrow> run" where
  \<comment> \<open>The whole script, from its imports on.\<close>
  "upload_model w =
     (if \<not> boto3_importable w
      then (1, [Print ''boto3 not installed. Install with: pip install boto3'' []])
      else if skip_requested (environ w) then (0, [banner, uploader_skip_notice])
      else
        (case (environ w ''S3_BUCKET'', environ w ''AWS_ACCESS_KEY_ID'',
               environ w ''AWS_SECRET_ACCESS_KEY'', environ w ''MODEL_NAME'') of
           (Some bucket_name, Some access_key, Some secret_key, Some model_name) \<Rightarrow>
             (if bucket_name \<noteq> [] \<and> access_key \<noteq> [] \<and> secret_key \<noteq> [] \<and> model_name \<noteq> []
              then upload_connect w bucket_name access_key secret_key model_name [banner]
              else missing_env_exit)
         | _ \<Rightarrow> missing_env_exit))"

section \<open>Registry Registrar (register\_s3\_model.py)\<close>

definition registrar_skip_notice :: event where
  "registrar_skip_notice = Print ''Skipping register-with-registry task'' []"

definition namespace_file :: string where
  "namespace_file = ''/var/run/secrets/kubernetes.io/serviceaccount/namespace''"

definition token_path :: string where
  "token_path = ''/var/run/secrets/kubernetes.io/serviceaccount/token''"

definition version_id_file :: string where
  "version_id_file = ''/workspace/shared-workspace/model_version_id''"

definition registrar_uri :: "string \<Rightarrow> string \<Rightarrow> string option \<Rightarrow> string" where
  \<comment> \<open>\<^verbatim>\<open>s3_uri = f"s3://{s3_bucket}/model-data/{model_name}/{model_version}"\<close>, where
      \<^verbatim>\<open>model_name\<close> is the variable of line 51.\<close>
  "registrar_uri s3_bucket model_name model_ver =
     ''s3://'' @ s3_bucket @ ''/model-data/'' @ model_name @ ''/'' @ py_format model_ver"

definition registrar_model_name :: "string \<Rightarrow> string" where
  \<comment> \<open>\<^verbatim>\<open>model_name = os.environ.get('MODEL_NAME').lower()\<close>, for a variable that is set.\<close>
  "registrar_model_name v = py_lower v"

definition resolve_s3_uri ::
  "world \<Rightarrow> environ \<Rightarrow> string \<Rightarrow> string option \<Rightarrow> event list \<Rightarrow> run + string \<times> event list" where
  \<comment> \<open>Lines 55 to 68: the locator file first, the environment as the fallback.\<close>
  "resolve_s3_uri w env model_name model_ver tr =
     (case files w uri_file of
        Some text \<Rightarrow>
          (let s3_uri = py_strip text
           in Inr (s3_uri, tr @ [Print ''Using S3 URI from upload task: {s3_uri}'' [Str s3_uri]]))
      | None \<Rightarrow>
          (if truthy (env ''S3_BUCKET'') then
             (let s3_uri = registrar_uri (environ_get env ''S3_BUCKET'' []) model_name model_ver
              in Inr (s3_uri, tr @ [Print ''Constructed S3 URI: {s3_uri}'' [Str s3_uri]]))
           else Inl (1, tr @ [Print ''Error: Cannot determine S3 URI. S3_BUCKET not set and model_s3_uri file not found.'' []])))"

definition registration_of :: "string \<Rightarrow> string \<Rightarrow> string option \<Rightarrow> string \<Rightarrow> registration" where
  \<comment> \<open>The arguments of \<^verbatim>\<open>registry.register_model\<close>, lines 72 to 88.\<close>
  "registration_of model_name s3_uri model_ver huggingface_model =
     \<lparr> reg_name = model_name, reg_uri = s3_uri, reg_version = model_ver,
       reg_description =
         ''Model '' @ huggingface_model @ '' downloaded from Hugging Face and stored in S3'',
       reg_model_format_name = ''safetensors'', reg_model_format_version = ''1'',
       reg_storage_key = ''s3-storage'', reg_storage_path = s3_uri,
       reg_metadata =
         [(''source'', ''huggingface''), (''huggingface_model'', huggingface_model),
          (''framework'', ''pytorch''), (''storage_type'', ''s3''), (''s3_uri'', s3_uri)] \<rparr>"

definition dashboard_url :: "string \<Rightarrow> string \<Rightarrow> string" where
  "dashboard_url cluster_domain version_id =
     ''https://rhods-dashboard-redhat-ods-applications.'' @ cluster_domain @
     ''/modelRegistry/modelcar-pipeline-registry/registeredModels/1/versions/'' @ version_id @
     ''/details''"

definition lookup_call :: "string \<Rightarrow> string option \<Rightarrow> event" where
  \<comment> \<open>\<^verbatim>\<open>registry.get_model_version(model_name, model_version)\<close>\<close>
  "lookup_call model_name model_ver = Net (Get_model_version model_name model_ver)"

definition write_version_id :: "string \<Rightarrow> event" where
  \<comment> \<open>\<^verbatim>\<open>with open('/workspace/shared-workspace/model_version_id', 'w') as f: f.write(str(id))\<close>\<close>
  "write_version_id version_id = Write_file version_id_file version_id"

definition lookup_failed_exit :: "event list \<Rightarrow> run" where
  \<comment> \<open>Lines 119 to 121: the handler of the lookup inside the conflict handler.\<close>
  "lookup_failed_exit tr = (1, tr @ [Print ''Error getting existing model details: {str(e)}'' []])"

definition registering_failed_exit :: "event list \<Rightarrow> run" where
  \<comment> \<open>Lines 122 to 126: the handler of every exception but \<^verbatim>\<open>StoreError\<close>.\<close>
  "registering_failed_exit tr = (1, tr @ [Print ''Error registering model: {str(e)}'' [], Traceback])"

definition conflict_handler ::
  "world \<Rightarrow> nat \<Rightarrow> string \<Rightarrow> string option \<Rightarrow> event list \<Rightarrow> run" where
  \<comment> \<open>Lines 104 to 121: \<^verbatim>\<open>except StoreError\<close>. \<open>n\<close> counts the lookups made before.\<close>
  "conflict_handler w n model_name model_ver tr =
     (let tr1 = tr @ [Print ''Model version already exists: {model_name} version {model_version}''
                        [Str model_name, Str (py_format model_ver)],
                      lookup_call model_name model_ver]
      in case get_model_version w n of
           Lookup_version model_details \<Rightarrow>
             (let tr2 = tr1 @ [Print ''Existing model details:'' [],
                               Print ''Model ID: {model_details.id}'' [Str (mv_id model_details)],
                               Print ''Model Name: {model_details.name}'' [Str (mv_name model_details)]]
              in if writable w version_id_file then
                   (0, tr2 @ [write_version_id (mv_id model_details),
                              Print ''Task completed successfully - using existing model version'' []])
                 else lookup_failed_exit tr2)
         | Lookup_none \<Rightarrow> lookup_failed_exit (tr1 @ [Print ''Existing model details:'' []])
         | Lookup_StoreError \<Rightarrow> lookup_failed_exit tr1
         | Lookup_other_error \<Rightarrow> lookup_failed_exit tr1)"

definition register_stage ::
  "world \<Rightarrow> string \<Rightarrow> string option \<Rightarrow> string \<Rightarrow> string \<Rightarrow> string \<Rightarrow> event list \<Rightarrow> run" where
  \<comment> \<open>Lines 70 to 126: the \<^verbatim>\<open>try\<close> block and its handlers.\<close>
  "register_stage w model_name model_ver huggingface_model cluster_domain s3_uri tr =
     (let reg = registration_of model_name s3_uri model_ver huggingface_model;
          tr1 = tr @ [Net (Register_model reg)]
      in case register_model w reg of
           Register_StoreError \<Rightarrow> conflict_handler w 0 model_name model_ver tr1
         | Register_other_error \<Rightarrow> registering_failed_exit tr1
         | Register_ok \<Rightarrow>
             (let tr2 = tr1 @ [Print ''Successfully registered model: {model_name} version {model_version}''
                                 [Str model_name, Str (py_format model_ver)],
                               Print ''Model URI: {s3_uri}'' [Str s3_uri],
                               lookup_call model_name model_ver]
              in case get_model_version w 0 of
                   Lookup_StoreError \<Rightarrow> conflict_handler w 1 model_name model_ver tr2
                 | Lookup_other_error \<Rightarrow> registering_failed_exit tr2
                 | Lookup_none \<Rightarrow> registering_failed_exit tr2
                 | Lookup_version shown \<Rightarrow>
                     (let tr3 = tr2 @ [Print ''Model details available at: {url}''
                                         [Str (dashboard_url cluster_domain (mv_id shown))],
                                       lookup_call model_name model_ver]
                      in case get_model_version w 1 of
                           Lookup_StoreError \<Rightarrow> conflict_handler w 2 model_name model_ver tr3
                         | Lookup_other_error \<Rightarrow> registering_failed_exit tr3
                         | Lookup_none \<Rightarrow> registering_failed_exit tr3
                         | Lookup_version saved \<Rightarrow>
                             (if writable w version_id_file then
                                (0, tr3 @ [write_version_id (mv_id saved),
                                           Print ''Model registration complete!'' [],
                                           Print ''Model: {model_name} v{model_version}''
                                             [Str model_name, Str (py_format model_ver)],
                                           Print ''Registry ID: {model_version_id}'' [Str (mv_id saved)],
                                           Print ''S3 Location: {s3_uri}'' [Str s3_uri]])
                              else registering_failed_exit tr3))))"

definition registrar_client :: "string \<Rightarrow> event" where
  \<comment> \<open>Lines 43 to 48.\<close>
  "registrar_client server_address =
     Construct (Registry_client server_address 443 ''modelcar-pipeline'' False)"

definition registrar_prelude :: "string \<Rightarrow> event list" where
  \<comment> \<open>Lines 13 and 36 to 48: the effects up to the construction of the client.\<close>
  "registrar_prelude server_address =
     [banner, Print ''Server address: {server_address}'' [Str server_address],
      Set_env ''KF_PIPELINES_SA_TOKEN_PATH'' token_path,
      Print ''Token path set in environment'' [],
      registrar_client server_address]"

definition register_configured :: "world \<Rightarrow> string \<Rightarrow> run" where
  \<comment> \<open>Lines 36 to 126, once the server address is known.\<close>
  "register_configured w server_address =
     (let cluster_domain = environ_get (environ w) ''CLUSTER_DOMAIN'' ''cluster.local'';
          env = (environ w)(''KF_PIPELINES_SA_TOKEN_PATH'' \<mapsto> token_path);
          tr = registrar_prelude server_address
      in case env ''MODEL_NAME'' of
           None \<Rightarrow> (1, tr @ [Traceback])
         | Some v \<Rightarrow>
             (let model_name = registrar_model_name v;
                  model_ver = env ''MODEL_VERSION'';
                  huggingface_model = environ_get env ''HUGGINGFACE_MODEL'' ''unknown''
              in case resolve_s3_uri w env model_name model_ver tr of
                   Inl r \<Rightarrow> r
                 | Inr (s3_uri, tr1) \<Rightarrow>
                     register_stage w model_name model_ver huggingface_model cluster_domain
                       s3_uri tr1))"

definition url_not_set_exit :: run where
  \<comment> \<open>Lines 33 to 35.\<close>
  "url_not_set_exit =
     (1, [banner, Print ''Error: MODEL_REGISTRY_URL environment variable not set'' []])"

definition register_s3_model :: "world \<Rightarrow> run" where
  \<comment> \<open>The whole script. The import of the registry client and the read of the namespace
      file are not guarded: when one raises, the interpreter prints the traceback and ends
      with 1.\<close>
  "register_s3_model w =
     (if skip_requested (environ w) then (0, [banner, registrar_skip_notice])
      else if \<not> model_registry_importable w then (1, [banner, Traceback])
      else
        (case files w namespace_file of
           None \<Rightarrow> (1, [banner, Traceback])
         | Some namespace \<Rightarrow>
             (case environ w ''MODEL_REGISTRY_URL'' of
                None \<Rightarrow> url_not_set_exit
              | Some server_address \<Rightarrow>
                  (if server_address = [] then url_not_set_exit
                   else register_configured w server_address))))"

section \<open>Evaluation Storage Utility (s3\_uploader.py)\<close>

text \<open>
  An \<^verbatim>\<open>S3EvaluationStorage\<close> object holds the bucket name and the client. The client is
  the outcome of each of its calls: \<^verbatim>\<open>upload_file\<close> by key, the iteration over
  \<^verbatim>\<open>paginate(Bucket, Prefix, Delimiter='/')\<close> by prefix, and \<^verbatim>\<open>get_object\<close> with the
  read of its body by key. Each step of the iteration over the pages either yields a page,
  with the \<^verbatim>\<open>Prefix\<close> values of its \<^verbatim>\<open>CommonPrefixes\<close> when it has that key, or raises,
  which ends the iteration.
\<close>

datatype py_error = ValueError | JSONDecodeError | TypeError | ClientError | Other_error

datatype page_step = Page "string list option" | Page_raises py_error

datatype get_outcome = Get_body string | Get_ClientError | Get_other_error

record storage =
  bucket_name :: string
  s3_upload_file :: "string \<Rightarrow> upload_outcome"
  s3_paginate :: "string \<Rightarrow> page_step list"
  s3_get_object :: "string \<Rightarrow> get_outcome"

subsection \<open>Upload\<close>

record datetime =
  year :: nat
  month :: nat
  day :: nat
  hour :: nat
  minute :: nat
  second :: nat
  microsecond :: nat

definition digit_char :: "nat \<Rightarrow> char" where
  "digit_char n = char_of (48 + n)"

definition two_digits :: "nat \<Rightarrow> string" where
  \<comment> \<open>\<^verbatim>\<open>%m\<close>, \<^verbatim>\<open>%d\<close>, \<^verbatim>\<open>%H\<close>, \<^verbatim>\<open>%M\<close>, \<^verbatim>\<open>%S\<close>: two decimal digits, zero padded.\<close>
  "two_digits n = [digit_char (n div 10 mod 10), digit_char (n mod 10)]"

definition four_digits :: "nat \<Rightarrow> string" where
  \<comment> \<open>\<^verbatim>\<open>%Y\<close> for a year of four digits.\<close>
  "four_digits n =
     [digit_char (n div 1000 mod 10), digit_char (n div 100 mod 10),
      digit_char (n div 10 mod 10), digit_char (n mod 10)]"

definition strftime_compact :: "datetime \<Rightarrow> string" where
  \<comment> \<open>\<^verbatim>\<open>strftime("%Y%m%d_%H%M%S")\<close>\<close>
  "strftime_compact d =
     four_digits (year d) @ two_digits (month d) @ two_digits (day d) @ ''_'' @
     two_digits (hour d) @ two_digits (minute d) @ two_digits (second d)"

definition valid_datetime :: "datetime \<Rightarrow> bool" where
  \<comment> \<open>The ranges of the fields of a \<^verbatim>\<open>datetime\<close> whose year has four digits.\<close>
  "valid_datetime d =
     (1000 \<le> year d \<and> year d \<le> 9999 \<and> 1 \<le> month d \<and> month d \<le> 12 \<and>
      1 \<le> day d \<and> day d \<le> 31 \<and> hour d < 24 \<and> minute d < 60 \<and> second d < 60)"

definition same_second :: "datetime \<Rightarrow> datetime \<Rightarrow> bool" where
  "same_second a b =
     (year a = year b \<and> month a = month b \<and> day a = day b \<and>
      hour a = hour b \<and> minute a = minute b \<and> second a = second b)"

definition generated_evaluation_id :: "string \<Rightarrow> string \<Rightarrow> datetime \<Rightarrow> string" where
  \<comment> \<open>\<^verbatim>\<open>evaluation_id = f"{model_name}_{model_version}_{timestamp}"\<close>\<close>
  "generated_evaluation_id model_name model_ver now =
     model_name @ ''_'' @ model_ver @ ''_'' @ strftime_compact now"

definition evaluation_prefix :: "string \<Rightarrow> string \<Rightarrow> string \<Rightarrow> string" where
  \<comment> \<open>\<^verbatim>\<open>s3_prefix = f"evaluations/{model_name}/{model_version}/{evaluation_id}"\<close>\<close>
  "evaluation_prefix model_name model_ver evaluation_id =
     ''evaluations/'' @ model_name @ ''/'' @ model_ver @ ''/'' @ evaluation_id"

definition evaluation_metadata :: "string \<Rightarrow> string \<Rightarrow> string \<Rightarrow> (string \<times> string) list" where
  "evaluation_metadata model_name model_ver evaluation_id =
     [(''model-name'', model_name), (''model-version'', model_ver),
      (''evaluation-id'', evaluation_id)]"

definition evaluation_upload_call :: "string \<Rightarrow> string \<Rightarrow> string \<Rightarrow> string \<Rightarrow> string \<Rightarrow> event" where
  "evaluation_upload_call bucket model_name model_ver evaluation_id s3_key =
     Net (Upload_file bucket s3_key (evaluation_metadata model_name model_ver evaluation_id))"

text \<open>
  The loop of lines 113 to 147. A \<^verbatim>\<open>ClientError\<close> is logged and the loop goes on; any
  other exception leaves the method (\<open>Inl\<close>, with the effects so far). The per-file line
  is logged at debug level, below the level the module configures, and is not an effect.
\<close>

fun evaluation_loop ::
  "(string \<Rightarrow> upload_outcome) \<Rightarrow> (string \<Rightarrow> event) \<Rightarrow> string \<Rightarrow>
   dir_entry list \<Rightarrow> nat \<times> nat \<times> event list \<Rightarrow>
   py_error \<times> event list + nat \<times> nat \<times> event list" where
  "evaluation_loop up call s3_prefix [] st = Inr st"
| "evaluation_loop up call s3_prefix (e # es) (uploaded_count, total_size, tr) =
     (if is_file e then
        (case up (model_key s3_prefix e) of
           Upload_ok \<Rightarrow>
             evaluation_loop up call s3_prefix es
               (uploaded_count + 1, total_size + st_size e, tr @ [call (model_key s3_prefix e)])
         | Upload_ClientError \<Rightarrow>
             evaluation_loop up call s3_prefix es
               (uploaded_count, total_size,
                tr @ [call (model_key s3_prefix e), upload_failed (rel_path e)])
         | Upload_other_error \<Rightarrow> Inl (Other_error, tr @ [call (model_key s3_prefix e)]))
      else evaluation_loop up call s3_prefix es (uploaded_count, total_size, tr))"

definition upload_evaluation_results ::
  "storage \<Rightarrow> (string \<rightharpoonup> dir_entry list) \<Rightarrow> datetime \<Rightarrow>
   string \<Rightarrow> string \<Rightarrow> string \<Rightarrow> string option \<Rightarrow> event list \<times> (py_error + string)" where
  \<comment> \<open>\<^verbatim>\<open>upload_evaluation_results(self, results_dir, model_name, model_version, evaluation_id)\<close>:
      the effects and the value returned or the exception raised. \<open>now\<close> is the clock at
      line 104.\<close>
  "upload_evaluation_results self fs now results_dir model_name model_ver evaluation_id =
     (case fs results_dir of
        None \<Rightarrow> ([], Inl ValueError)
      | Some entries \<Rightarrow>
          (let evaluation_id =
                 (if truthy evaluation_id then py_format evaluation_id
                  else generated_evaluation_id model_name model_ver now);
               s3_prefix = evaluation_prefix model_name model_ver evaluation_id;
               tr = [Log_info ''Uploading results to S3...'' [],
                     Log_info ''Local path: {results_dir}'' [Str results_dir],
                     Log_info ''S3 prefix: s3://{self.bucket_name}/{s3_prefix}''
                       [Str (bucket_name self), Str s3_prefix]]
           in case evaluation_loop (s3_upload_file self)
                     (evaluation_upload_call (bucket_name self) model_name model_ver evaluation_id)
                     s3_prefix entries (0, 0, tr) of
                Inl (err, tr1) \<Rightarrow> (tr1, Inl err)
              | Inr (uploaded_count, total_size, tr1) \<Rightarrow>
                  (tr1 @ [upload_report uploaded_count total_size,
                          Log_info ''S3 Location: s3://{self.bucket_name}/{s3_prefix}/''
                            [Str (bucket_name self), Str s3_prefix]],
                   Inr s3_prefix)))"

subsection \<open>List\<close>

text \<open>
  The values \<^verbatim>\<open>json.loads\<close> returns (numbers with a fraction left out). \<^verbatim>\<open>json.loads\<close>
  itself is a parameter of the listing: \<open>None\<close> is the text it rejects. A dictionary keeps
  its keys in insertion order; assigning to a key replaces the value in place or appends.
\<close>

datatype pyval =
    PNone
  | PBool bool
  | PInt int
  | PStr string
  | PList "pyval list"
  | PDict "(string \<times> pyval) list"

type_synonym metadata = "(string \<times> pyval) list"

definition list_prefix :: "string option \<Rightarrow> string option \<Rightarrow> string" where
  \<comment> \<open>Lines 221 to 225.\<close>
  "list_prefix model_name model_ver =
     (let prefix = ''evaluations/''
      in if truthy model_name then
           (let prefix = prefix @ py_format model_name @ ''/''
            in if truthy model_ver then prefix @ py_format model_ver @ ''/'' else prefix)
         else prefix)"

definition summary_key :: "string \<Rightarrow> string" where
  \<comment> \<open>\<^verbatim>\<open>summary_key = f"{eval_prefix}cross_language_summary.json"\<close>\<close>
  "summary_key eval_prefix = eval_prefix @ ''cross_language_summary.json''"

definition fallback_metadata :: "string \<Rightarrow> metadata" where
  \<comment> \<open>Lines 254 to 258.\<close>
  "fallback_metadata eval_prefix =
     [(''s3_prefix'', PStr eval_prefix), (''model_name'', PStr ''unknown''),
      (''model_version'', PStr ''unknown'')]"

definition fetch_metadata ::
  "storage \<Rightarrow> (string \<Rightarrow> pyval option) \<Rightarrow> string \<Rightarrow> py_error + metadata" where
  \<comment> \<open>Lines 242 to 258: the body of the inner loop. Only \<^verbatim>\<open>ClientError\<close> is handled;
      a body that is not JSON, or JSON that is not an object, raises out of the method.\<close>
  "fetch_metadata self json_loads eval_prefix =
     (case s3_get_object self (summary_key eval_prefix) of
        Get_ClientError \<Rightarrow> Inr (fallback_metadata eval_prefix)
      | Get_other_error \<Rightarrow> Inl Other_error
      | Get_body body \<Rightarrow>
          (case json_loads body of
             None \<Rightarrow> Inl JSONDecodeError
           | Some (PDict metadata) \<Rightarrow> Inr (AList.update ''s3_prefix'' (PStr eval_prefix) metadata)
           | Some _ \<Rightarrow> Inl TypeError))"

fun list_common_prefixes ::
  "storage \<Rightarrow> (string \<Rightarrow> pyval option) \<Rightarrow> string list \<Rightarrow> metadata list \<Rightarrow>
   py_error + metadata list" where
  "list_common_prefixes self json_loads [] evaluations = Inr evaluations"
| "list_common_prefixes self json_loads (eval_prefix # rest) evaluations =
     (case fetch_metadata self json_loads eval_prefix of
        Inl err \<Rightarrow> Inl err
      | Inr metadata \<Rightarrow> list_common_prefixes self json_loads rest (evaluations @ [metadata]))"

definition common_prefixes :: "string list option \<Rightarrow> string list" where
  \<comment> \<open>\<^verbatim>\<open>page.get('CommonPrefixes', [])\<close>\<close>
  "common_prefixes page = (case page of None \<Rightarrow> [] | Some ps \<Rightarrow> ps)"

fun list_pages ::
  "storage \<Rightarrow> (string \<Rightarrow> pyval option) \<Rightarrow> page_step list \<Rightarrow> metadata list \<Rightarrow>
   py_error + metadata list" where
  \<comment> \<open>The loop of line 237. The iteration is not inside a \<^verbatim>\<open>try\<close>: a step that raises
      leaves the method.\<close>
  "list_pages self json_loads [] evaluations = Inr evaluations"
| "list_pages self json_loads (Page_raises err # pages) evaluations = Inl err"
| "list_pages self json_loads (Page page # pages) evaluations =
     (case list_common_prefixes self json_loads (common_prefixes page) evaluations of
        Inl err \<Rightarrow> Inl err
      | Inr evaluations' \<Rightarrow> list_pages self json_loads pages evaluations')"

fun yielded :: "page_step list \<Rightarrow> string list option list" where
  \<comment> \<open>The pages an iteration yields before it ends or raises.\<close>
  "yielded [] = []"
| "yielded (Page_raises err # steps) = []"
| "yielded (Page page # steps) = page # yielded steps"

fun raised :: "page_step list \<Rightarrow> py_error option" where
  \<comment> \<open>The exception that ends an iteration, when one does.\<close>
  "raised [] = None"
| "raised (Page_raises err # steps) = Some err"
| "raised (Page page # steps) = raised steps"

definition groupings :: "storage \<Rightarrow> string \<Rightarrow> string list" where
  \<comment> \<open>The common prefixes of all pages the store yields for a query prefix, in order.\<close>
  "groupings self query = concat (map common_prefixes (yielded (s3_paginate self query)))"

definition list_evaluations ::
  "storage \<Rightarrow> (string \<Rightarrow> pyval option) \<Rightarrow> string option \<Rightarrow> string option \<Rightarrow>
   py_error + metadata list" where
  "list_evaluations self json_loads model_name model_ver =
     list_pages self json_loads (s3_paginate self (list_prefix model_name model_ver)) []"

section \<open>Example worlds\<close>

text \<open>Concrete inputs at which the properties below are evaluated.\<close>

definition example_environ :: environ where
  "example_environ =
     [''S3_BUCKET'' \<mapsto> ''models'', ''AWS_ACCESS_KEY_ID'' \<mapsto> ''AKIA'',
      ''AWS_SECRET_ACCESS_KEY'' \<mapsto> ''secret'', ''MODEL_NAME'' \<mapsto> ''Granite-7B'',
      ''MODEL_VERSION'' \<mapsto> ''2.1'', ''MODEL_REGISTRY_URL'' \<mapsto> ''registry.example'']"

definition example_tree :: "dir_entry list" where
  "example_tree =
     [\<lparr> rel_path = ''config.json'', is_file = True, st_size = 120 \<rparr>,
      \<lparr> rel_path = ''weights'', is_file = False, st_size = 4096 \<rparr>,
      \<lparr> rel_path = ''weights/model.safetensors'', is_file = True, st_size = 5000 \<rparr>,
      \<lparr> rel_path = ''tokenizer.json'', is_file = True, st_size = 300 \<rparr>]"

definition example_version :: model_version where
  "example_version = \<lparr> mv_id = ''7'', mv_name = ''granite-7b'' \<rparr>"

definition example_world :: world where
  "example_world =
     \<lparr> boto3_importable = True, model_registry_importable = True,
       environ = example_environ,
       files = [namespace_file \<mapsto> ''pipelines''],
       writable = (\<lambda>p. True),
       tree = [''/workspace/shared-workspace/model'' \<mapsto> example_tree],
       head_bucket = (\<lambda>b. Head_ok),
       upload_file = (\<lambda>k. Upload_ok),
       register_model = (\<lambda>r. Register_ok),
       get_model_version = (\<lambda>n. Lookup_version example_version) \<rparr>"

definition skipping_world :: world where
  \<comment> \<open>Nothing is configured but the skip list, which names the task.\<close>
  "skipping_world =
     example_world \<lparr> environ := [''SKIP_TASK'' \<mapsto> ''upload'', ''SKIP_TASKS'' \<mapsto> ''download,upload''] \<rparr>"

definition empty_skip_world :: world where
  "empty_skip_world = example_world \<lparr> environ := example_environ(''SKIP_TASK'' \<mapsto> []) \<rparr>"

definition unset_skip_world :: world where
  "unset_skip_world = example_world \<lparr> environ := example_environ(''SKIP_TASKS'' \<mapsto> '','') \<rparr>"

definition unconfigured_world :: world where
  "unconfigured_world = example_world \<lparr> environ := [''MODEL_NAME'' \<mapsto> ''Granite-7B''] \<rparr>"

definition conflict_world :: world where
  \<comment> \<open>The registry already holds the version: registration raises \<^verbatim>\<open>StoreError\<close>.\<close>
  "conflict_world = example_world \<lparr> register_model := (\<lambda>r. Register_StoreError) \<rparr>"

definition conflict_lookup_fails_world :: world where
  "conflict_lookup_fails_world =
     conflict_world \<lparr> get_model_version := (\<lambda>n. Lookup_other_error) \<rparr>"


definition example_storage :: storage where
  \<open>example_storage =
     \<lparr> bucket_name = ''llm-evaluation-results'',
       s3_upload_file =
         (\<lambda>k. if k = ''evaluations/granite/2.1/run-1/weights/model.safetensors''
              then Upload_ClientError else Upload_ok),
       s3_paginate =
         (\<lambda>q. if q = ''evaluations/granite/''
              then [Page (Some [''evaluations/granite/2.0/'', ''evaluations/granite/2.1/'']),
                    Page None]
              else []),
       s3_get_object =
         (\<lambda>k. if k = ''evaluations/granite/2.1/cross_language_summary.json''
              then Get_body ''{"model_name": "granite"}'' else Get_ClientError) \<rparr>\<close>

definition example_loads :: "string \<Rightarrow> pyval option" where
  \<comment> \<open>What \<^verbatim>\<open>json.loads\<close> returns on the one summary of the example store.\<close>
  \<open>example_loads body =
     (if body = ''{"model_name": "granite"}''
      then Some (PDict [(''model_name'', PStr ''granite'')])
      else None)\<close>

definition example_now :: datetime where
  "example_now =
     \<lparr> year = 2025, month = 3, day = 9, hour = 14, minute = 5, second = 7, microsecond = 250000 \<rparr>"

section \<open>Reaching the upload loop\<close>

definition uploader_connected :: "world \<Rightarrow> string \<Rightarrow> string \<Rightarrow> string \<Rightarrow> string \<Rightarrow> bool" where
  \<comment> \<open>The run of the Model Uploader gets past its imports, the skip test, the required
      variables and the bucket check, with this bucket, model name, model version and
      model directory.\<close>
  "uploader_connected w bucket model_name model_ver dir =
     (boto3_importable w \<and> \<not> skip_requested (environ w) \<and>
      environ w ''S3_BUCKET'' = Some bucket \<and> bucket \<noteq> [] \<and>
      truthy (environ w ''AWS_ACCESS_KEY_ID'') \<and> truthy (environ w ''AWS_SECRET_ACCESS_KEY'') \<and>
      environ w ''MODEL_NAME'' = Some model_name \<and> model_name \<noteq> [] \<and>
      environ_get (environ w) ''MODEL_VERSION'' ''1.0.0'' = model_ver \<and>
      environ_get (environ w) ''WORKSPACE_PATH'' ''/workspace/shared-workspace/model'' = dir \<and>
      head_bucket w bucket = Head_ok)"

definition unreadable_storage :: storage where
  \<comment> \<open>One grouping, whose summary object is there but does not hold JSON.\<close>
  "unreadable_storage =
     \<lparr> bucket_name = ''llm-evaluation-results'',
       s3_upload_file = (\<lambda>k. Upload_ok),
       s3_paginate =
         (\<lambda>q. if q = ''evaluations/'' then [Page (Some [''evaluations/granite/''])] else []),
       s3_get_object = (\<lambda>k. Get_body ''not json'') \<rparr>"

definition example_listing :: "metadata list" where
  \<comment> \<open>What the listing of the example store returns for the model \<^verbatim>\<open>granite\<close>.\<close>
  "example_listing =
     [fallback_metadata ''evaluations/granite/2.0/'',
      [(''model_name'', PStr ''granite''), (''s3_prefix'', PStr ''evaluations/granite/2.1/'')]]"

section \<open>Reading a timestamp back\<close>

text \<open>
  The format of the generated timestamp is stated by reading its fields back: the decimal
  value of a run of digits, and the test for a digit.
\<close>

definition is_digit :: "char \<Rightarrow> bool" where
  "is_digit c = (48 \<le> (of_char c :: nat) \<and> (of_char c :: nat) \<le> 57)"

definition decimal :: "string \<Rightarrow> nat" where
  \<comment> \<open>The number a string of decimal digits denotes.\<close>
  "decimal s = foldl (\<lambda>a c. 10 * a + (of_char c - 48)) 0 s"

section \<open>Properties\<close>

subsection \<open>The skip check\<close>

lemma skip_requested_unset: "env ''SKIP_TASK'' = None \<Longrightarrow> \<not> skip_requested env"
  by (simp add: skip_requested_def)

lemma skip_requested_empty:
  "env ''SKIP_TASK'' = Some [] \<Longrightarrow> env ''SKIP_TASKS'' = None \<or> env ''SKIP_TASKS'' = Some [] \<Longrightarrow>
   skip_requested env"
  by (auto simp add: skip_requested_def environ_get_def)

lemma upload_model_skipped:
  "boto3_importable w \<Longrightarrow> skip_requested (environ w) \<Longrightarrow>
   upload_model w = (0, [banner, uploader_skip_notice])"
  by (simp add: upload_model_def)

lemma register_s3_model_skipped:
  "skip_requested (environ w) \<Longrightarrow> register_s3_model w = (0, [banner, registrar_skip_notice])"
  by (simp add: register_s3_model_def)

lemma upload_loop_Print:
  "(Print f a \<in> set (case upload_loop up (model_upload_call b m v) p es (c, t, tr) of
                      Inl r \<Rightarrow> snd r | Inr s \<Rightarrow> snd (snd s))) = (Print f a \<in> set tr)"
  by (induction es arbitrary: c t tr)
     (simp_all add: model_upload_call_def uploaded_line_def upload_failed_def
        split: upload_outcome.splits)

lemma upload_tree_notice:
  "(uploader_skip_notice \<in> set (snd (upload_tree w b m v p tr))) = (uploader_skip_notice \<in> set tr)"
proof (cases "tree w p")
  case None
  then show ?thesis by (simp add: upload_tree_def uploader_skip_notice_def)
next
  case (Some es)
  let ?tr1 = "tr @ [Log_info ''Uploading model to S3...'' [],
                    Log_info ''Local path: {model_dir}'' [Str p],
                    Log_info ''S3 prefix: s3://{bucket_name}/{s3_prefix}'' [Str b, Str (model_prefix m v)]]"
  have *: "(uploader_skip_notice \<in> set (case upload_loop (upload_file w) (model_upload_call b m v) (model_prefix m v) es (0, 0, ?tr1) of
                      Inl r \<Rightarrow> snd r | Inr s \<Rightarrow> snd (snd s))) = (uploader_skip_notice \<in> set tr)"
    unfolding uploader_skip_notice_def upload_loop_Print by simp
  show ?thesis
    using * Some
    by (auto simp add: upload_tree_def Let_def uploader_skip_notice_def upload_report_def
        split: sum.splits prod.splits)
qed

lemma upload_model_notice:
  "\<not> skip_requested (environ w) \<Longrightarrow> uploader_skip_notice \<notin> set (snd (upload_model w))"
  by (simp add: upload_model_def upload_connect_def missing_env_exit_def Let_def
      upload_tree_notice banner_def
      split: option.splits head_outcome.splits)
     (simp add: uploader_skip_notice_def)


lemma conflict_handler_notice:
  "(registrar_skip_notice \<in> set (snd (conflict_handler w n m v tr))) =
   (registrar_skip_notice \<in> set tr)"
  by (simp add: conflict_handler_def lookup_failed_exit_def lookup_call_def write_version_id_def
      Let_def registrar_skip_notice_def split: lookup_outcome.splits)

lemma registering_failed_notice:
  "(registrar_skip_notice \<in> set (snd (registering_failed_exit tr))) =
   (registrar_skip_notice \<in> set tr)"
  by (simp add: registering_failed_exit_def registrar_skip_notice_def)

lemma register_stage_notice:
  "(registrar_skip_notice \<in> set (snd (register_stage w m v h c u tr))) =
   (registrar_skip_notice \<in> set tr)"
  unfolding register_stage_def Let_def
  by (simp split: register_outcome.splits lookup_outcome.splits
      add: conflict_handler_notice[unfolded registrar_skip_notice_def]
           registering_failed_notice[unfolded registrar_skip_notice_def]
           registrar_skip_notice_def lookup_call_def write_version_id_def)

lemma register_s3_model_notice:
  "\<not> skip_requested (environ w) \<Longrightarrow> registrar_skip_notice \<notin> set (snd (register_s3_model w))"
  by (simp add: register_s3_model_def register_configured_def url_not_set_exit_def
      resolve_s3_uri_def register_stage_notice[unfolded registrar_skip_notice_def]
      registrar_prelude_def registrar_client_def Let_def banner_def registrar_skip_notice_def
      split: option.splits)

text \<open>
  Claim C10. The comma-split of the empty skip list is the list holding the empty string.
  So when \<^verbatim>\<open>SKIP_TASK\<close> is the empty string and \<^verbatim>\<open>SKIP_TASKS\<close> is unset or empty, the
  skip test holds and both scripts end with 0 right after the banner and the skip notice
  (the Model Uploader once its import of the storage client has succeeded, which it checks
  before the skip test). When \<^verbatim>\<open>SKIP_TASK\<close> is unset the skip test fails whatever
  \<^verbatim>\<open>SKIP_TASKS\<close> holds, and neither script prints its skip notice.
\<close>

theorem C10_skip_edge_cases:
  "split_sep (CHR '','') [] = [[]] \<and>
   (environ w ''SKIP_TASK'' = Some [] \<and>
    (environ w ''SKIP_TASKS'' = None \<or> environ w ''SKIP_TASKS'' = Some []) \<longrightarrow>
      skip_requested (environ w) \<and>
      (boto3_importable w \<longrightarrow> upload_model w = (0, [banner, uploader_skip_notice])) \<and>
      register_s3_model w = (0, [banner, registrar_skip_notice])) \<and>
   (environ w ''SKIP_TASK'' = None \<longrightarrow>
      \<not> skip_requested (environ w) \<and>
      uploader_skip_notice \<notin> set (snd (upload_model w)) \<and>
      registrar_skip_notice \<notin> set (snd (register_s3_model w)))"
  using skip_requested_empty[of "environ w"] skip_requested_unset[of "environ w"]
    upload_model_skipped[of w] register_s3_model_skipped[of w]
    upload_model_notice[of w] register_s3_model_notice[of w]
  by auto

theorem C10_skip_edge_cases_witness:
  "environ empty_skip_world ''SKIP_TASK'' = Some [] \<and>
   environ empty_skip_world ''SKIP_TASKS'' = None \<and>
   boto3_importable empty_skip_world \<and>
   upload_model empty_skip_world = (0, [banner, uploader_skip_notice]) \<and>
   register_s3_model empty_skip_world = (0, [banner, registrar_skip_notice]) \<and>
   environ unset_skip_world ''SKIP_TASK'' = None \<and>
   environ unset_skip_world ''SKIP_TASKS'' = Some '','' \<and>
   uploader_skip_notice \<notin> set (snd (upload_model unset_skip_world)) \<and>
   registrar_skip_notice \<notin> set (snd (register_s3_model unset_skip_world))"
proof -
  have a: "environ empty_skip_world ''SKIP_TASK'' = Some []"
    and b: "environ empty_skip_world ''SKIP_TASKS'' = None"
    and c: "boto3_importable empty_skip_world"
    by (simp_all add: empty_skip_world_def example_world_def example_environ_def)
  have d: "environ unset_skip_world ''SKIP_TASK'' = None"
    and e: "environ unset_skip_world ''SKIP_TASKS'' = Some '',''"
    by (simp_all add: unset_skip_world_def example_world_def example_environ_def)
  show ?thesis
    using a b c d e C10_skip_edge_cases[of empty_skip_world]
      C10_skip_edge_cases[of unset_skip_world]
    by blast
qed

text \<open>
  Claim C9. When the value of \<^verbatim>\<open>SKIP_TASK\<close> is an element of the comma-split value of
  \<^verbatim>\<open>SKIP_TASKS\<close>, the Registry Registrar ends with 0 right after the banner and its skip
  notice, and so does the Model Uploader once its import of the storage client has
  succeeded; neither run constructs a client, calls a remote service or writes a file.
\<close>

theorem C9_skip_exits_without_effects:
  assumes "environ w ''SKIP_TASK'' = Some t"
    and "t \<in> set (split_sep (CHR '','') (environ_get (environ w) ''SKIP_TASKS'' []))"
  shows "(boto3_importable w \<longrightarrow> upload_model w = (0, [banner, uploader_skip_notice])) \<and>
         register_s3_model w = (0, [banner, registrar_skip_notice]) \<and>
         filter (\<lambda>e. is_net e \<or> is_write e \<or> is_construct e) (snd (upload_model w)) = [] \<and>
         filter (\<lambda>e. is_net e \<or> is_write e \<or> is_construct e) (snd (register_s3_model w)) = []"
proof -
  have skip: "skip_requested (environ w)"
    using assms by (simp add: skip_requested_def)
  then show ?thesis
    by (simp add: upload_model_def register_s3_model_def banner_def uploader_skip_notice_def
        registrar_skip_notice_def)
qed

theorem C9_skip_exits_without_effects_witness:
  "environ skipping_world ''SKIP_TASK'' = Some ''upload'' \<and>
   ''upload'' \<in> set (split_sep (CHR '','') (environ_get (environ skipping_world) ''SKIP_TASKS'' [])) \<and>
   boto3_importable skipping_world \<and>
   upload_model skipping_world = (0, [banner, uploader_skip_notice]) \<and>
   register_s3_model skipping_world = (0, [banner, registrar_skip_notice]) \<and>
   filter (\<lambda>e. is_net e \<or> is_write e \<or> is_construct e) (snd (upload_model skipping_world)) = [] \<and>
   filter (\<lambda>e. is_net e \<or> is_write e \<or> is_construct e) (snd (register_s3_model skipping_world)) = []"
proof -
  have a: "environ skipping_world ''SKIP_TASK'' = Some ''upload''"
    by (simp add: skipping_world_def)
  have b: "''upload'' \<in> set (split_sep (CHR '','') (environ_get (environ skipping_world) ''SKIP_TASKS'' []))"
    by (simp add: skipping_world_def environ_get_def)
  have c: "boto3_importable skipping_world"
    by (simp add: skipping_world_def example_world_def)
  show ?thesis
    using a b c C9_skip_exits_without_effects[OF a b] by blast
qed

text \<open>
  Claim C8, amended. When a required variable of the Model Uploader is absent, its run
  constructs no client and makes no network call, and it ends with 1 unless the skip test
  holds. When the registry server address is absent, the same is true of the Registry
  Registrar. The skip test comes first in both scripts: a run that is skipped ends with 0
  although the required variables are absent, which is what the counterexample evaluates.
\<close>

theorem C8_missing_configuration:
  "((environ w ''S3_BUCKET'' = None \<or> environ w ''AWS_ACCESS_KEY_ID'' = None \<or>
     environ w ''AWS_SECRET_ACCESS_KEY'' = None \<or> environ w ''MODEL_NAME'' = None) \<longrightarrow>
      (\<not> skip_requested (environ w) \<longrightarrow> fst (upload_model w) = 1) \<and>
      filter (\<lambda>e. is_construct e \<or> is_net e) (snd (upload_model w)) = []) \<and>
   (environ w ''MODEL_REGISTRY_URL'' = None \<longrightarrow>
      (\<not> skip_requested (environ w) \<longrightarrow> fst (register_s3_model w) = 1) \<and>
      filter (\<lambda>e. is_construct e \<or> is_net e) (snd (register_s3_model w)) = [])"
  by (auto simp add: upload_model_def register_s3_model_def missing_env_exit_def
      url_not_set_exit_def banner_def uploader_skip_notice_def registrar_skip_notice_def
      split: option.splits)

theorem C8_missing_configuration_witness:
  "environ unconfigured_world ''S3_BUCKET'' = None \<and>
   environ unconfigured_world ''MODEL_REGISTRY_URL'' = None \<and>
   \<not> skip_requested (environ unconfigured_world) \<and>
   fst (upload_model unconfigured_world) = 1 \<and>
   filter (\<lambda>e. is_construct e \<or> is_net e) (snd (upload_model unconfigured_world)) = [] \<and>
   fst (register_s3_model unconfigured_world) = 1 \<and>
   filter (\<lambda>e. is_construct e \<or> is_net e) (snd (register_s3_model unconfigured_world)) = []"
proof -
  have a: "environ unconfigured_world ''S3_BUCKET'' = None"
    and b: "environ unconfigured_world ''MODEL_REGISTRY_URL'' = None"
    and c: "\<not> skip_requested (environ unconfigured_world)"
    by (simp_all add: unconfigured_world_def skip_requested_def)
  show ?thesis
    using a b c C8_missing_configuration[of unconfigured_world] by blast
qed

theorem C8_skipped_exits_0_counterexample:
  "environ skipping_world ''S3_BUCKET'' = None \<and>
   environ skipping_world ''AWS_ACCESS_KEY_ID'' = None \<and>
   environ skipping_world ''AWS_SECRET_ACCESS_KEY'' = None \<and>
   environ skipping_world ''MODEL_NAME'' = None \<and>
   environ skipping_world ''MODEL_REGISTRY_URL'' = None \<and>
   fst (upload_model skipping_world) = 0 \<and>
   fst (register_s3_model skipping_world) = 0"
  by (simp add: skipping_world_def example_world_def upload_model_def register_s3_model_def
      skip_requested_def environ_get_def)

subsection \<open>The locator\<close>

lemma length_py_lower: "length (py_lower s) = length s"
  by (simp add: py_lower_def)

lemma locators_agree_iff:
  "uploader_uri b m v = registrar_uri b (registrar_model_name m) (Some v) \<longleftrightarrow> py_lower m = m"
  by (auto simp add: uploader_uri_def registrar_uri_def model_prefix_def registrar_model_name_def
      py_format_def length_py_lower)

lemma py_lower_example: "py_lower ''Granite-7B'' = ''granite-7b''"
  by (simp add: py_lower_def lower_char_def char_of_eq_iff)

subsection \<open>Reaching the registration\<close>

lemma register_s3_model_configured:
  assumes "\<not> skip_requested (environ w)" and "model_registry_importable w"
    and "files w namespace_file = Some ns"
    and "environ w ''MODEL_REGISTRY_URL'' = Some a" and "a \<noteq> []"
  shows "register_s3_model w = register_configured w a"
  using assms by (simp add: register_s3_model_def)

lemma resolve_s3_uri_resolved:
  assumes "files w uri_file \<noteq> None \<or> truthy (env ''S3_BUCKET'')"
  shows "\<exists>u e. resolve_s3_uri w env m v tr = Inr (u, tr @ [e]) \<and> \<not> is_write e \<and> \<not> is_net e"
  using assms by (cases "files w uri_file") (simp_all add: resolve_s3_uri_def Let_def)

lemma register_configured_stage:
  assumes "environ w ''MODEL_NAME'' = Some n"
    and "resolve_s3_uri w ((environ w)(''KF_PIPELINES_SA_TOKEN_PATH'' \<mapsto> token_path))
           (py_lower n) (environ w ''MODEL_VERSION'') (registrar_prelude a) = Inr (u, tr)"
  shows "register_configured w a =
           register_stage w (py_lower n) (environ w ''MODEL_VERSION'')
             (environ_get (environ w) ''HUGGINGFACE_MODEL'' ''unknown'')
             (environ_get (environ w) ''CLUSTER_DOMAIN'' ''cluster.local'') u tr"
  using assms
  by (simp add: register_configured_def registrar_model_name_def Let_def environ_get_def)

lemma registrar_prelude_effects:
  "filter is_write (registrar_prelude a) = []" "filter is_net (registrar_prelude a) = []"
  by (simp_all add: registrar_prelude_def banner_def registrar_client_def)

subsection \<open>The conflict handler\<close>

lemma conflict_handler_found:
  assumes "get_model_version w k = Lookup_version d" and "writable w version_id_file"
  shows "fst (conflict_handler w k m v tr) = 0"
    and "filter is_write (snd (conflict_handler w k m v tr)) =
           filter is_write tr @ [Write_file version_id_file (mv_id d)]"
    and "filter is_net (snd (conflict_handler w k m v tr)) = filter is_net tr @ [lookup_call m v]"
  using assms
  by (simp_all add: conflict_handler_def Let_def write_version_id_def lookup_call_def)

lemma conflict_handler_not_found:
  assumes "\<And>d. get_model_version w k \<noteq> Lookup_version d"
  shows "fst (conflict_handler w k m v tr) = 1"
    and "filter is_write (snd (conflict_handler w k m v tr)) = filter is_write tr"
    and "filter is_net (snd (conflict_handler w k m v tr)) = filter is_net tr @ [lookup_call m v]"
  using assms
  by (simp_all add: conflict_handler_def Let_def lookup_failed_exit_def lookup_call_def
      split: lookup_outcome.splits)

lemma register_stage_conflict:
  assumes "register_model w (registration_of m u v h) = Register_StoreError"
  shows "register_stage w m v h c u tr =
           conflict_handler w 0 m v (tr @ [Net (Register_model (registration_of m u v h))])"
  using assms by (simp add: register_stage_def Let_def)

lemma register_stage_first_time:
  assumes "register_model w (registration_of m u v h) = Register_ok"
    and "get_model_version w 0 = Lookup_version shown"
    and "get_model_version w 1 = Lookup_version saved"
    and "writable w version_id_file"
  shows "fst (register_stage w m v h c u tr) = 0"
    and "filter is_write (snd (register_stage w m v h c u tr)) =
           filter is_write tr @ [Write_file version_id_file (mv_id saved)]"
  using assms
  by (simp_all add: register_stage_def Let_def write_version_id_def lookup_call_def)

text \<open>
  Claim C2. Take a run of the Registry Registrar that reaches the registration call: it is
  not skipped, the registry client is importable, the namespace file is readable, the
  server address and the model name are set, and the locator is resolved. When the
  registration call raises \<^verbatim>\<open>StoreError\<close> and the lookup that follows returns a version,
  the run ends with 0; its only file write is the identifier of that version to
  \<^verbatim>\<open>/workspace/shared-workspace/model_version_id\<close>, and its network calls are the
  registration and that one lookup. When the lookup after the conflict returns no version
  (it raises, whatever the error), the run ends with 1 and writes no file. On the first-time
  path (registration succeeds and both lookups return) the run ends with 0 and its only
  file write is to the same file, with the identifier the lookup returned.
\<close>

theorem C2_conflict_is_not_a_failure:
  assumes "\<not> skip_requested (environ w)" and "model_registry_importable w"
    and "files w namespace_file = Some ns"
    and "environ w ''MODEL_REGISTRY_URL'' = Some a" and "a \<noteq> []"
    and "environ w ''MODEL_NAME'' = Some n"
    and "files w uri_file \<noteq> None \<or> truthy (environ w ''S3_BUCKET'')"
  shows
    "((\<forall>reg. register_model w reg = Register_StoreError) \<and>
      get_model_version w 0 = Lookup_version d \<and> writable w version_id_file \<longrightarrow>
        fst (register_s3_model w) = 0 \<and>
        filter is_write (snd (register_s3_model w)) = [Write_file version_id_file (mv_id d)] \<and>
        (\<exists>reg. filter is_net (snd (register_s3_model w)) =
           [Net (Register_model reg), lookup_call (py_lower n) (environ w ''MODEL_VERSION'')])) \<and>
     ((\<forall>reg. register_model w reg = Register_StoreError) \<and>
      (\<forall>d. get_model_version w 0 \<noteq> Lookup_version d) \<longrightarrow>
        fst (register_s3_model w) = 1 \<and> filter is_write (snd (register_s3_model w)) = []) \<and>
     ((\<forall>reg. register_model w reg = Register_ok) \<and>
      get_model_version w 0 = Lookup_version shown \<and>
      get_model_version w 1 = Lookup_version d \<and> writable w version_id_file \<longrightarrow>
        fst (register_s3_model w) = 0 \<and>
        filter is_write (snd (register_s3_model w)) = [Write_file version_id_file (mv_id d)])"
proof -
  let ?env = "(environ w)(''KF_PIPELINES_SA_TOKEN_PATH'' \<mapsto> token_path)"
  have "files w uri_file \<noteq> None \<or> truthy (?env ''S3_BUCKET'')"
    using assms(7) by simp
  then obtain u e where
    res: "resolve_s3_uri w ?env (py_lower n) (environ w ''MODEL_VERSION'') (registrar_prelude a)
            = Inr (u, registrar_prelude a @ [e])"
    and e: "\<not> is_write e" "\<not> is_net e"
    using resolve_s3_uri_resolved by blast
  have run: "register_s3_model w =
      register_stage w (py_lower n) (environ w ''MODEL_VERSION'')
        (environ_get (environ w) ''HUGGINGFACE_MODEL'' ''unknown'')
        (environ_get (environ w) ''CLUSTER_DOMAIN'' ''cluster.local'') u (registrar_prelude a @ [e])"
    using register_s3_model_configured[OF assms(1-5)] register_configured_stage[OF assms(6) res]
    by simp
  show ?thesis
    unfolding run
    using e
    by (auto simp add: register_stage_conflict conflict_handler_found conflict_handler_not_found
        register_stage_first_time registrar_prelude_effects)
qed

theorem C2_conflict_is_not_a_failure_witness:
  "fst (register_s3_model conflict_world) = 0 \<and>
   filter is_write (snd (register_s3_model conflict_world)) = [Write_file version_id_file ''7''] \<and>
   fst (register_s3_model conflict_lookup_fails_world) = 1 \<and>
   filter is_write (snd (register_s3_model conflict_lookup_fails_world)) = [] \<and>
   fst (register_s3_model example_world) = 0 \<and>
   filter is_write (snd (register_s3_model example_world)) = [Write_file version_id_file ''7'']"
proof -
  have skip: "\<not> skip_requested (environ conflict_world)"
    "\<not> skip_requested (environ conflict_lookup_fails_world)"
    "\<not> skip_requested (environ example_world)"
    by (simp_all add: conflict_world_def conflict_lookup_fails_world_def example_world_def
        example_environ_def skip_requested_def)
  have a: "fst (register_s3_model conflict_world) = 0 \<and>
      filter is_write (snd (register_s3_model conflict_world)) = [Write_file version_id_file ''7'']"
    using C2_conflict_is_not_a_failure[of conflict_world "''pipelines''" "''registry.example''"
        "''Granite-7B''" example_version example_version] skip(1)
    by (simp add: conflict_world_def example_world_def example_environ_def example_version_def
        truthy_def)
  have b: "fst (register_s3_model conflict_lookup_fails_world) = 1 \<and>
      filter is_write (snd (register_s3_model conflict_lookup_fails_world)) = []"
    using C2_conflict_is_not_a_failure[of conflict_lookup_fails_world "''pipelines''"
        "''registry.example''" "''Granite-7B''" example_version example_version] skip(2)
    by (simp add: conflict_lookup_fails_world_def conflict_world_def example_world_def
        example_environ_def example_version_def truthy_def)
  have c: "fst (register_s3_model example_world) = 0 \<and>
      filter is_write (snd (register_s3_model example_world)) = [Write_file version_id_file ''7'']"
    using C2_conflict_is_not_a_failure[of example_world "''pipelines''" "''registry.example''"
        "''Granite-7B''" example_version example_version] skip(3)
    by (simp add: example_world_def example_environ_def example_version_def truthy_def)
  show ?thesis using a b c by simp
qed

subsection \<open>The upload loop of the Model Uploader\<close>

lemma upload_loop_all_ok:
  assumes "\<forall>e\<in>set es. is_file e \<longrightarrow> up (model_key p e) = Upload_ok"
  shows "upload_loop up call p es (c, t, tr) =
           Inr (c + length (filter is_file es), t + sum_list (map st_size (filter is_file es)),
                tr @ concat (map (\<lambda>e. [call (model_key p e), uploaded_line e]) (filter is_file es)))"
  using assms by (induction es arbitrary: c t tr) simp_all



lemma upload_event_kinds:
  "is_upload (model_upload_call b m v k)" "\<not> is_write (model_upload_call b m v k)"
  "\<not> is_upload (uploaded_line e)" "\<not> is_write (uploaded_line e)"
  "\<not> is_upload (upload_failed r)" "\<not> is_write (upload_failed r)"
  "\<not> is_upload (upload_report n k')" "\<not> is_write (upload_report n k')"
  by (simp_all add: model_upload_call_def uploaded_line_def upload_failed_def upload_report_def)

lemma filter_upload_events:
  "filter is_upload (concat (map (\<lambda>e. [model_upload_call b m v (model_key p e), uploaded_line e]) fs))
     = map (\<lambda>e. model_upload_call b m v (model_key p e)) fs"
  by (induction fs) (simp_all add: upload_event_kinds)

lemma filter_write_events:
  "filter is_write (concat (map (\<lambda>e. [model_upload_call b m v (model_key p e), uploaded_line e]) fs)) = []"
  by (induction fs) (simp_all add: upload_event_kinds)

lemma upload_model_connected:
  assumes "uploader_connected w b m v dir"
  shows "\<exists>tr. upload_model w = upload_tree w b m v dir tr \<and>
              filter is_upload tr = [] \<and> filter is_write tr = []"
  using assms
  by (auto simp add: uploader_connected_def upload_model_def upload_connect_def truthy_def
      banner_def Let_def split: option.splits)

lemma upload_tree_success:
  assumes "tree w dir = Some es"
    and "\<forall>e\<in>set es. is_file e \<longrightarrow> upload_file w (model_key (model_prefix m v) e) = Upload_ok"
    and "writable w uri_file"
  shows "fst (upload_tree w b m v dir tr) = 0"
    and "filter is_upload (snd (upload_tree w b m v dir tr)) =
           filter is_upload tr @
           map (\<lambda>e. model_upload_call b m v (model_key (model_prefix m v) e)) (filter is_file es)"
    and "filter is_write (snd (upload_tree w b m v dir tr)) =
           filter is_write tr @ [Write_file uri_file (uploader_uri b m v)]"
    and "upload_report (length (filter is_file es)) (sum_list (map st_size (filter is_file es)))
           \<in> set (snd (upload_tree w b m v dir tr))"
  using assms
  by (simp_all add: upload_tree_def Let_def upload_loop_all_ok filter_upload_events
      filter_write_events upload_event_kinds)


subsection \<open>The upload loop of the Evaluation Storage Utility\<close>

lemma evaluation_loop_tolerant:
  assumes "\<forall>e\<in>set es. is_file e \<longrightarrow> up (model_key p e) \<noteq> Upload_other_error"
  shows "evaluation_loop up call p es (c, t, tr) =
           Inr (c + length (filter (\<lambda>e. is_file e \<and> up (model_key p e) = Upload_ok) es),
                t + sum_list (map st_size (filter (\<lambda>e. is_file e \<and> up (model_key p e) = Upload_ok) es)),
                tr @ concat (map (\<lambda>e. if up (model_key p e) = Upload_ok then [call (model_key p e)]
                                        else [call (model_key p e), upload_failed (rel_path e)])
                              (filter is_file es)))"
  using assms
  by (induction es arbitrary: c t tr) (auto split: upload_outcome.splits)

lemma evaluation_event_kinds:
  "is_upload (evaluation_upload_call b m v i k)"
  by (simp_all add: evaluation_upload_call_def)

lemma filter_evaluation_events:
  "filter is_upload (concat (map (\<lambda>e. if up (model_key p e) = Upload_ok
                                        then [evaluation_upload_call b m v i (model_key p e)]
                                        else [evaluation_upload_call b m v i (model_key p e),
                                              upload_failed (rel_path e)]) fs))
     = map (\<lambda>e. evaluation_upload_call b m v i (model_key p e)) fs"
  by (induction fs) (simp_all add: evaluation_event_kinds upload_failed_def)

lemma failed_in_evaluation_events:
  assumes "e \<in> set fs" and "up (model_key p e) \<noteq> Upload_ok"
  shows "upload_failed (rel_path e)
           \<in> set (concat (map (\<lambda>e. if up (model_key p e) = Upload_ok then [call (model_key p e)]
                                     else [call (model_key p e), upload_failed (rel_path e)]) fs))"
  using assms by (induction fs) auto

lemma upload_evaluation_results_tolerant:
  assumes "fs dir = Some es"
    and "\<forall>e\<in>set es. is_file e \<longrightarrow>
           s3_upload_file self (model_key (evaluation_prefix m v i) e) \<noteq> Upload_other_error"
    and "i = (if truthy eid then py_format eid else generated_evaluation_id m v now)"
  shows "upload_evaluation_results self fs now dir m v eid =
           ([Log_info ''Uploading results to S3...'' [],
             Log_info ''Local path: {results_dir}'' [Str dir],
             Log_info ''S3 prefix: s3://{self.bucket_name}/{s3_prefix}''
               [Str (bucket_name self), Str (evaluation_prefix m v i)]] @
            concat (map (\<lambda>e. if s3_upload_file self (model_key (evaluation_prefix m v i) e) = Upload_ok
                        then [evaluation_upload_call (bucket_name self) m v i
                                (model_key (evaluation_prefix m v i) e)]
                        else [evaluation_upload_call (bucket_name self) m v i
                                (model_key (evaluation_prefix m v i) e),
                              upload_failed (rel_path e)]) (filter is_file es)) @
            [upload_report
               (length (filter (\<lambda>e. is_file e \<and>
                  s3_upload_file self (model_key (evaluation_prefix m v i) e) = Upload_ok) es))
               (sum_list (map st_size (filter (\<lambda>e. is_file e \<and>
                  s3_upload_file self (model_key (evaluation_prefix m v i) e) = Upload_ok) es))),
             Log_info ''S3 Location: s3://{self.bucket_name}/{s3_prefix}/''
               [Str (bucket_name self), Str (evaluation_prefix m v i)]],
            Inr (evaluation_prefix m v i))"
  using assms(1,2) unfolding assms(3)
  by (simp add: upload_evaluation_results_def Let_def evaluation_loop_tolerant)

lemma upload_evaluation_results_effects:
  assumes "fs dir = Some es"
    and "\<forall>e\<in>set es. is_file e \<longrightarrow>
           s3_upload_file self (model_key (evaluation_prefix m v i) e) \<noteq> Upload_other_error"
    and "i = (if truthy eid then py_format eid else generated_evaluation_id m v now)"
  shows "snd (upload_evaluation_results self fs now dir m v eid) = Inr (evaluation_prefix m v i)"
    and "filter is_upload (fst (upload_evaluation_results self fs now dir m v eid)) =
           map (\<lambda>e. evaluation_upload_call (bucket_name self) m v i
                      (model_key (evaluation_prefix m v i) e)) (filter is_file es)"
    and "upload_report
           (length (filter (\<lambda>e. is_file e \<and>
              s3_upload_file self (model_key (evaluation_prefix m v i) e) = Upload_ok) es))
           (sum_list (map st_size (filter (\<lambda>e. is_file e \<and>
              s3_upload_file self (model_key (evaluation_prefix m v i) e) = Upload_ok) es)))
         \<in> set (fst (upload_evaluation_results self fs now dir m v eid))"
    and "\<And>e. e \<in> set es \<Longrightarrow> is_file e \<Longrightarrow>
           s3_upload_file self (model_key (evaluation_prefix m v i) e) = Upload_ClientError \<Longrightarrow>
           upload_failed (rel_path e) \<in> set (fst (upload_evaluation_results self fs now dir m v eid))"
proof -
  note run = upload_evaluation_results_tolerant[where fs=fs and dir=dir, OF assms]
  show "snd (upload_evaluation_results self fs now dir m v eid) = Inr (evaluation_prefix m v i)"
    by (simp add: run)
  show "filter is_upload (fst (upload_evaluation_results self fs now dir m v eid)) =
           map (\<lambda>e. evaluation_upload_call (bucket_name self) m v i
                      (model_key (evaluation_prefix m v i) e)) (filter is_file es)"
    by (simp add: run filter_evaluation_events upload_report_def)
  show "upload_report
           (length (filter (\<lambda>e. is_file e \<and>
              s3_upload_file self (model_key (evaluation_prefix m v i) e) = Upload_ok) es))
           (sum_list (map st_size (filter (\<lambda>e. is_file e \<and>
              s3_upload_file self (model_key (evaluation_prefix m v i) e) = Upload_ok) es)))
         \<in> set (fst (upload_evaluation_results self fs now dir m v eid))"
    by (simp add: run)
  show "upload_failed (rel_path e) \<in> set (fst (upload_evaluation_results self fs now dir m v eid))"
    if "e \<in> set es" "is_file e"
      "s3_upload_file self (model_key (evaluation_prefix m v i) e) = Upload_ClientError" for e
  proof -
    have "e \<in> set (filter is_file es)" using that by simp
    moreover have "s3_upload_file self (model_key (evaluation_prefix m v i) e) \<noteq> Upload_ok"
      using that by simp
    ultimately show ?thesis
      unfolding run fst_conv set_append
      using failed_in_evaluation_events[of e "filter is_file es" "s3_upload_file self"
          "evaluation_prefix m v i" "evaluation_upload_call (bucket_name self) m v i"]
      by blast
  qed
qed

lemma upload_model_success:
  assumes "uploader_connected w b m v dir"
    and "tree w dir = Some es"
    and "\<forall>e\<in>set es. is_file e \<longrightarrow> upload_file w (model_key (model_prefix m v) e) = Upload_ok"
    and "writable w uri_file"
  shows "fst (upload_model w) = 0"
    and "filter is_upload (snd (upload_model w)) =
           map (\<lambda>e. model_upload_call b m v (model_key (model_prefix m v) e)) (filter is_file es)"
    and "upload_report (length (filter is_file es)) (sum_list (map st_size (filter is_file es)))
           \<in> set (snd (upload_model w))"
    and "filter is_write (snd (upload_model w)) = [Write_file uri_file (uploader_uri b m v)]"
proof -
  obtain tr where run: "upload_model w = upload_tree w b m v dir tr"
    and tr: "filter is_upload tr = []" "filter is_write tr = []"
    using upload_model_connected[OF assms(1)] by blast
  note ok = upload_tree_success[OF assms(2,3,4), of b tr]
  show "fst (upload_model w) = 0" by (simp add: run ok)
  show "filter is_upload (snd (upload_model w)) =
           map (\<lambda>e. model_upload_call b m v (model_key (model_prefix m v) e)) (filter is_file es)"
    by (simp add: run ok tr)
  show "upload_report (length (filter is_file es)) (sum_list (map st_size (filter is_file es)))
           \<in> set (snd (upload_model w))"
    by (simp add: run ok)
  show "filter is_write (snd (upload_model w)) = [Write_file uri_file (uploader_uri b m v)]"
    by (simp add: run ok tr)
qed


lemma example_world_connected:
  "uploader_connected example_world ''models'' ''Granite-7B'' ''2.1''
     ''/workspace/shared-workspace/model''"
  by (simp add: uploader_connected_def example_world_def example_environ_def skip_requested_def
      truthy_def environ_get_def)

lemma example_world_tree:
  "tree example_world ''/workspace/shared-workspace/model'' = Some example_tree"
  by (simp add: example_world_def)






subsection \<open>The generated evaluation id\<close>

lemma digit_char_value: "n < 10 \<Longrightarrow> of_char (digit_char n) = 48 + n"
  by (simp add: digit_char_def)

lemma is_digit_digit_char: "n < 10 \<Longrightarrow> is_digit (digit_char n)"
  by (simp add: is_digit_def digit_char_value)

lemma decimal_two_digits: "n < 100 \<Longrightarrow> decimal (two_digits n) = n"
  by (simp add: decimal_def two_digits_def digit_char_value)


lemma decimal_four_digits:
  assumes "n < 10000"
  shows "decimal (four_digits n) = n"
proof -
  define x where "x = n div 10"
  define y where "y = x div 10"
  define z where "z = y div 10"
  have h: "n div 100 = y" "n div 1000 = z"
    by (simp_all add: x_def y_def z_def div_mult2_eq)
  have "n div 1000 < 10"
    using assms by (simp add: less_mult_imp_div_less)
  then have zz: "z mod 10 = z"
    by (simp add: h)
  have n: "n = 10 * x + n mod 10" and x: "x = 10 * y + x mod 10" and y: "y = 10 * z + y mod 10"
    by (simp_all add: x_def y_def z_def)
  have "decimal (four_digits n) = 10 * (10 * (10 * (z mod 10) + y mod 10) + x mod 10) + n mod 10"
    by (simp add: decimal_def four_digits_def digit_char_value h x_def[symmetric])
  also have "\<dots> = n"
    by (simp only: zz y[symmetric] x[symmetric] n[symmetric])
  finally show ?thesis .
qed


lemma length_strftime_compact: "length (strftime_compact d) = 15"
  by (simp add: strftime_compact_def four_digits_def two_digits_def)

lemma strftime_compact_fields:
  assumes "valid_datetime d"
  shows "decimal (take 4 (strftime_compact d)) = year d"
    and "decimal (take 2 (drop 4 (strftime_compact d))) = month d"
    and "decimal (take 2 (drop 6 (strftime_compact d))) = day d"
    and "strftime_compact d ! 8 = CHR ''_''"
    and "decimal (take 2 (drop 9 (strftime_compact d))) = hour d"
    and "decimal (take 2 (drop 11 (strftime_compact d))) = minute d"
    and "decimal (take 2 (drop 13 (strftime_compact d))) = second d"
proof -
  have l4: "length (four_digits (year d)) = 4" by (simp add: four_digits_def)
  have l2: "\<And>n. length (two_digits n) = 2" by (simp add: two_digits_def)
  have y: "year d < 10000" and mo: "month d < 100" and da: "day d < 100"
    and h: "hour d < 100" and mi: "minute d < 100" and s: "second d < 100"
    using assms by (simp_all add: valid_datetime_def)
  show "decimal (take 4 (strftime_compact d)) = year d"
    by (simp add: strftime_compact_def l4 decimal_four_digits[OF y])
  show "decimal (take 2 (drop 4 (strftime_compact d))) = month d"
    by (simp add: strftime_compact_def l4 l2 decimal_two_digits[OF mo])
  show "decimal (take 2 (drop 6 (strftime_compact d))) = day d"
    by (simp add: strftime_compact_def l4 l2 decimal_two_digits[OF da])
  show "strftime_compact d ! 8 = CHR ''_''"
    by (simp add: strftime_compact_def l4 l2 nth_append)
  show "decimal (take 2 (drop 9 (strftime_compact d))) = hour d"
    by (simp add: strftime_compact_def l4 l2 decimal_two_digits[OF h])
  show "decimal (take 2 (drop 11 (strftime_compact d))) = minute d"
    by (simp add: strftime_compact_def l4 l2 decimal_two_digits[OF mi])
  show "decimal (take 2 (drop 13 (strftime_compact d))) = second d"
    by (simp add: strftime_compact_def l4 l2 decimal_two_digits[OF s])
qed

lemma strftime_compact_digits:
  "list_all is_digit (take 8 (strftime_compact d))"
  "list_all is_digit (drop 9 (strftime_compact d))"
  by (simp_all add: strftime_compact_def four_digits_def two_digits_def is_digit_digit_char)

lemma strftime_compact_same_second:
  assumes "valid_datetime a" and "valid_datetime b" and "strftime_compact a = strftime_compact b"
  shows "same_second a b"
proof -
  let ?fields = "\<lambda>s. (decimal (take 4 s), decimal (take 2 (drop 4 s)), decimal (take 2 (drop 6 s)),
                       decimal (take 2 (drop 9 s)), decimal (take 2 (drop 11 s)),
                       decimal (take 2 (drop 13 s)))"
  have fa: "?fields (strftime_compact a) = (year a, month a, day a, hour a, minute a, second a)"
    by (simp only: strftime_compact_fields[OF assms(1)])
  have fb: "?fields (strftime_compact b) = (year b, month b, day b, hour b, minute b, second b)"
    by (simp only: strftime_compact_fields[OF assms(2)])
  have "?fields (strftime_compact a) = ?fields (strftime_compact b)"
    by (simp only: assms(3))
  then have "(year a, month a, day a, hour a, minute a, second a) =
             (year b, month b, day b, hour b, minute b, second b)"
    by (simp only: fa fb)
  then show ?thesis
    by (simp add: same_second_def)
qed

lemma generated_evaluation_id_distinct:
  assumes "valid_datetime a" and "valid_datetime b" and "\<not> same_second a b"
  shows "generated_evaluation_id m1 v1 a \<noteq> generated_evaluation_id m2 v2 b"
proof
  assume eq: "generated_evaluation_id m1 v1 a = generated_evaluation_id m2 v2 b"
  have "(m1 @ ''_'' @ v1 @ ''_'') @ strftime_compact a = (m2 @ ''_'' @ v2 @ ''_'') @ strftime_compact b"
    using eq unfolding generated_evaluation_id_def by (simp only: append_assoc)
  then have "strftime_compact a = strftime_compact b"
    by (metis append_eq_append_conv length_strftime_compact)
  then show False
    using strftime_compact_same_second[OF assms(1,2)] assms(3) by simp
qed

text \<open>
  Claim C7. When no evaluation id is supplied (\<^verbatim>\<open>None\<close> or the empty string), the results
  directory exists and no upload raises anything but \<^verbatim>\<open>ClientError\<close>, the upload
  operation returns \<^verbatim>\<open>evaluations/{model}/{version}/{evaluation_id}\<close> with the generated id
  \<^verbatim>\<open>{model}_{version}_{timestamp}\<close>, and every upload call carries that id. The timestamp
  has 15 characters: for a clock reading with a year of four digits, characters 0 to 3 are
  the year, 4 to 5 the month, 6 to 7 the day, character 8 is an underscore, 9 to 10 are the
  hour, 11 to 12 the minute and 13 to 14 the second, each in decimal digits. Two clock
  readings that differ in a field down to the second give distinct ids, whatever the models
  and versions.
\<close>

theorem C7_generated_evaluation_id:
  "(\<not> truthy eid \<and> fs dir = Some es \<and>
    (\<forall>e\<in>set es. is_file e \<longrightarrow>
       s3_upload_file self
         (model_key (evaluation_prefix m v (generated_evaluation_id m v now)) e) \<noteq> Upload_other_error) \<longrightarrow>
      snd (upload_evaluation_results self fs now dir m v eid) =
        Inr (''evaluations/'' @ m @ ''/'' @ v @ ''/'' @ (m @ ''_'' @ v @ ''_'' @ strftime_compact now)) \<and>
      filter is_upload (fst (upload_evaluation_results self fs now dir m v eid)) =
        map (\<lambda>e. evaluation_upload_call (bucket_name self) m v (generated_evaluation_id m v now)
                   (model_key (evaluation_prefix m v (generated_evaluation_id m v now)) e))
          (filter is_file es)) \<and>
   generated_evaluation_id m v now = m @ ''_'' @ v @ ''_'' @ strftime_compact now \<and>
   length (strftime_compact now) = 15 \<and>
   (valid_datetime now \<longrightarrow>
      decimal (take 4 (strftime_compact now)) = year now \<and>
      decimal (take 2 (drop 4 (strftime_compact now))) = month now \<and>
      decimal (take 2 (drop 6 (strftime_compact now))) = day now \<and>
      strftime_compact now ! 8 = CHR ''_'' \<and>
      decimal (take 2 (drop 9 (strftime_compact now))) = hour now \<and>
      decimal (take 2 (drop 11 (strftime_compact now))) = minute now \<and>
      decimal (take 2 (drop 13 (strftime_compact now))) = second now \<and>
      list_all is_digit (take 8 (strftime_compact now)) \<and>
      list_all is_digit (drop 9 (strftime_compact now))) \<and>
   (valid_datetime now \<and> valid_datetime later \<and> \<not> same_second now later \<longrightarrow>
      generated_evaluation_id m v now \<noteq> generated_evaluation_id m' v' later)"
proof (intro conjI impI)
  let ?i = "generated_evaluation_id m v now"
  assume a: "\<not> truthy eid \<and> fs dir = Some es \<and>
    (\<forall>e\<in>set es. is_file e \<longrightarrow>
       s3_upload_file self (model_key (evaluation_prefix m v ?i) e) \<noteq> Upload_other_error)"
  then have i: "?i = (if truthy eid then py_format eid else generated_evaluation_id m v now)"
    by simp
  have dir: "fs dir = Some es"
    and tolerant: "\<forall>e\<in>set es. is_file e \<longrightarrow>
       s3_upload_file self (model_key (evaluation_prefix m v ?i) e) \<noteq> Upload_other_error"
    using a by blast+
  note eff = upload_evaluation_results_effects[where fs=fs and dir=dir, OF dir tolerant i]
  show "snd (upload_evaluation_results self fs now dir m v eid) =
        Inr (''evaluations/'' @ m @ ''/'' @ v @ ''/'' @ (m @ ''_'' @ v @ ''_'' @ strftime_compact now))"
    using eff(1) by (simp add: evaluation_prefix_def generated_evaluation_id_def)
  show "filter is_upload (fst (upload_evaluation_results self fs now dir m v eid)) =
        map (\<lambda>e. evaluation_upload_call (bucket_name self) m v ?i
                   (model_key (evaluation_prefix m v ?i) e)) (filter is_file es)"
    by (rule eff(2))
next
  show "generated_evaluation_id m v now = m @ ''_'' @ v @ ''_'' @ strftime_compact now"
    by (simp add: generated_evaluation_id_def)
  show "length (strftime_compact now) = 15"
    by (rule length_strftime_compact)
next
  assume v: "valid_datetime now"
  show "decimal (take 4 (strftime_compact now)) = year now"
    by (rule strftime_compact_fields(1)[OF v])
  show "decimal (take 2 (drop 4 (strftime_compact now))) = month now"
    by (rule strftime_compact_fields(2)[OF v])
  show "decimal (take 2 (drop 6 (strftime_compact now))) = day now"
    by (rule strftime_compact_fields(3)[OF v])
  show "strftime_compact now ! 8 = CHR ''_''"
    by (rule strftime_compact_fields(4)[OF v])
  show "decimal (take 2 (drop 9 (strftime_compact now))) = hour now"
    by (rule strftime_compact_fields(5)[OF v])
  show "decimal (take 2 (drop 11 (strftime_compact now))) = minute now"
    by (rule strftime_compact_fields(6)[OF v])
  show "decimal (take 2 (drop 13 (strftime_compact now))) = second now"
    by (rule strftime_compact_fields(7)[OF v])
  show "list_all is_digit (take 8 (strftime_compact now))"
    by (rule strftime_compact_digits(1))
  show "list_all is_digit (drop 9 (strftime_compact now))"
    by (rule strftime_compact_digits(2))
next
  assume "valid_datetime now \<and> valid_datetime later \<and> \<not> same_second now later"
  then show "generated_evaluation_id m v now \<noteq> generated_evaluation_id m' v' later"
    using generated_evaluation_id_distinct by blast
qed

theorem C7_generated_evaluation_id_witness:
  "strftime_compact example_now = ''20250309_140507'' \<and>
   valid_datetime example_now \<and> valid_datetime (example_now \<lparr> second := 8 \<rparr>) \<and>
   snd (upload_evaluation_results example_storage [''/results'' \<mapsto> example_tree] example_now
          ''/results'' ''granite'' ''2.1'' None) =
     Inr ''evaluations/granite/2.1/granite_2.1_20250309_140507'' \<and>
   decimal (take 4 (strftime_compact example_now)) = 2025 \<and>
   generated_evaluation_id ''granite'' ''2.1'' example_now \<noteq>
     generated_evaluation_id ''granite'' ''2.1'' (example_now \<lparr> second := 8 \<rparr>)"
proof -
  let ?fs = "[''/results'' \<mapsto> example_tree]"
  let ?later = "example_now \<lparr> second := 8 \<rparr>"
  have ts: "strftime_compact example_now = ''20250309_140507''"
    by (simp add: strftime_compact_def four_digits_def two_digits_def digit_char_def
        example_now_def char_of_eq_iff)
  have v: "valid_datetime example_now" "valid_datetime ?later" "\<not> same_second example_now ?later"
    by (simp_all add: valid_datetime_def same_second_def example_now_def)
  have e: "\<not> truthy None" "?fs ''/results'' = Some example_tree"
    by (simp_all add: truthy_def)
  have t: "\<forall>e\<in>set example_tree. is_file e \<longrightarrow>
      s3_upload_file example_storage
        (model_key (evaluation_prefix ''granite'' ''2.1''
           (generated_evaluation_id ''granite'' ''2.1'' example_now)) e) \<noteq> Upload_other_error"
    by (simp add: example_storage_def)
  have y: "year example_now = 2025"
    by (simp add: example_now_def)
  note inst = C7_generated_evaluation_id[where eid=None and fs="?fs" and dir="''/results''"
      and es=example_tree and self=example_storage and m="''granite''" and v="''2.1''"
      and now=example_now and later="?later" and m'="''granite''" and v'="''2.1''"]
  have r: "snd (upload_evaluation_results example_storage ?fs example_now
          ''/results'' ''granite'' ''2.1'' None) =
      Inr (''evaluations/'' @ ''granite'' @ ''/'' @ ''2.1'' @ ''/'' @
           (''granite'' @ ''_'' @ ''2.1'' @ ''_'' @ strftime_compact example_now))"
    using inst e t by blast
  have d: "decimal (take 4 (strftime_compact example_now)) = year example_now"
    using inst v(1) by blast
  have n: "generated_evaluation_id ''granite'' ''2.1'' example_now \<noteq>
      generated_evaluation_id ''granite'' ''2.1'' ?later"
    using inst v by blast
  show ?thesis
    using r d n v(1,2) by (simp add: ts y)
qed

subsection \<open>The listing\<close>

lemma fetch_metadata_missing:
  "s3_get_object self (summary_key g) = Get_ClientError \<Longrightarrow>
   fetch_metadata self loads g = Inr (fallback_metadata g)"
  by (simp add: fetch_metadata_def)

lemma fetch_metadata_object:
  "s3_get_object self (summary_key g) = Get_body body \<Longrightarrow> loads body = Some (PDict d) \<Longrightarrow>
   fetch_metadata self loads g = Inr (AList.update ''s3_prefix'' (PStr g) d)"
  by (simp add: fetch_metadata_def)

lemma fetch_metadata_s3_prefix:
  "fetch_metadata self loads g = Inr md \<Longrightarrow> map_of md ''s3_prefix'' = Some (PStr g)"
  by (auto simp add: fetch_metadata_def fallback_metadata_def update_conv'
      split: get_outcome.splits option.splits pyval.splits)

lemma list_common_prefixes_Inr:
  "list_common_prefixes self loads gs acc = Inr evs \<longleftrightarrow>
     (\<forall>g\<in>set gs. \<exists>md. fetch_metadata self loads g = Inr md) \<and>
     evs = acc @ map (\<lambda>g. projr (fetch_metadata self loads g)) gs"
  by (induction gs arbitrary: acc) (auto split: sum.splits)

lemma list_pages_Inr:
  "list_pages self loads steps acc = Inr evs \<longleftrightarrow>
     raised steps = None \<and>
     (\<forall>g\<in>set (concat (map common_prefixes (yielded steps))).
        \<exists>md. fetch_metadata self loads g = Inr md) \<and>
     evs = acc @ map (\<lambda>g. projr (fetch_metadata self loads g))
                   (concat (map common_prefixes (yielded steps)))"
proof (induction steps arbitrary: acc)
  case Nil
  then show ?case by auto
next
  case (Cons step steps)
  show ?case
  proof (cases step)
    case (Page_raises err)
    then show ?thesis by simp
  next
    case (Page page)
    show ?thesis
    proof (cases "list_common_prefixes self loads (common_prefixes page) acc")
      case (Inl err)
      then have "\<not> (\<forall>g\<in>set (common_prefixes page). \<exists>md. fetch_metadata self loads g = Inr md)"
        using list_common_prefixes_Inr[of self loads "common_prefixes page" acc] by auto
      then show ?thesis using Inl Page by auto
    next
      case (Inr acc')
      then show ?thesis
        using list_common_prefixes_Inr[of self loads "common_prefixes page" acc acc']
          Cons.IH[of acc'] Page
        by auto
    qed
  qed
qed

lemma list_evaluations_Inr:
  "list_evaluations self loads mn mv = Inr evs \<longleftrightarrow>
     raised (s3_paginate self (list_prefix mn mv)) = None \<and>
     (\<forall>g\<in>set (groupings self (list_prefix mn mv)). \<exists>md. fetch_metadata self loads g = Inr md) \<and>
     evs = map (\<lambda>g. projr (fetch_metadata self loads g)) (groupings self (list_prefix mn mv))"
  by (simp add: list_evaluations_def groupings_def list_pages_Inr)

lemma fetch_metadata_unreadable:
  assumes "s3_get_object self (summary_key g) = Get_other_error \<or>
           (\<exists>body. s3_get_object self (summary_key g) = Get_body body \<and>
                   (\<forall>d. loads body \<noteq> Some (PDict d)))"
  shows "\<exists>err. fetch_metadata self loads g = Inl err"
  using assms
  by (auto simp add: fetch_metadata_def split: option.splits pyval.splits)

text \<open>
  Claim C4, amended. When fetching the summary of a grouping raises \<^verbatim>\<open>ClientError\<close> (the
  object is missing, or the store refuses the read), the loop appends the minimal mapping
  for that grouping and goes on with the remaining groupings: that failure does not leave
  the method. The minimal mapping holds \<^verbatim>\<open>model_name\<close> and \<^verbatim>\<open>model_version\<close> equal to
  \<^verbatim>\<open>unknown\<close> and the grouping's storage prefix under \<^verbatim>\<open>s3_prefix\<close>. A listing that
  returns has one entry per grouping, in order, and the entry of every grouping whose fetch
  raised \<^verbatim>\<open>ClientError\<close> is its minimal mapping. The listing returns whenever the iteration
  over the pages raises nothing and every fetch either raises \<^verbatim>\<open>ClientError\<close> or yields
  a JSON object. Only \<^verbatim>\<open>ClientError\<close> is handled: when the fetch of a grouping's summary
  raises another exception, or yields a body that is not JSON or not a JSON object, the
  listing raises and returns no sequence.
\<close>

theorem C4_missing_summary_falls_back:
  "(s3_get_object self (summary_key g) = Get_ClientError \<longrightarrow>
      fetch_metadata self loads g = Inr (fallback_metadata g) \<and>
      list_common_prefixes self loads (g # rest) acc =
        list_common_prefixes self loads rest (acc @ [fallback_metadata g])) \<and>
   map_of (fallback_metadata g) ''model_name'' = Some (PStr ''unknown'') \<and>
   map_of (fallback_metadata g) ''model_version'' = Some (PStr ''unknown'') \<and>
   map_of (fallback_metadata g) ''s3_prefix'' = Some (PStr g) \<and>
   (list_evaluations self loads mn mv = Inr evs \<longrightarrow>
      length evs = length (groupings self (list_prefix mn mv)) \<and>
      (\<forall>k<length evs.
         s3_get_object self (summary_key (groupings self (list_prefix mn mv) ! k)) = Get_ClientError \<longrightarrow>
         evs ! k = fallback_metadata (groupings self (list_prefix mn mv) ! k))) \<and>
   (raised (s3_paginate self (list_prefix mn mv)) = None \<and>
    (\<forall>g\<in>set (groupings self (list_prefix mn mv)).
       s3_get_object self (summary_key g) = Get_ClientError \<or>
       (\<exists>body d. s3_get_object self (summary_key g) = Get_body body \<and> loads body = Some (PDict d))) \<longrightarrow>
      (\<exists>evs. list_evaluations self loads mn mv = Inr evs)) \<and>
   (g \<in> set (groupings self (list_prefix mn mv)) \<and>
    (s3_get_object self (summary_key g) = Get_other_error \<or>
     (\<exists>body. s3_get_object self (summary_key g) = Get_body body \<and>
             (\<forall>d. loads body \<noteq> Some (PDict d)))) \<longrightarrow>
      (\<exists>err. list_evaluations self loads mn mv = Inl err))"
proof (intro conjI impI)
  assume "s3_get_object self (summary_key g) = Get_ClientError"
  then show "fetch_metadata self loads g = Inr (fallback_metadata g)"
    and "list_common_prefixes self loads (g # rest) acc =
        list_common_prefixes self loads rest (acc @ [fallback_metadata g])"
    by (simp_all add: fetch_metadata_missing)
next
  show "map_of (fallback_metadata g) ''model_name'' = Some (PStr ''unknown'')"
    and "map_of (fallback_metadata g) ''model_version'' = Some (PStr ''unknown'')"
    and "map_of (fallback_metadata g) ''s3_prefix'' = Some (PStr g)"
    by (simp_all add: fallback_metadata_def)
next
  assume r: "list_evaluations self loads mn mv = Inr evs"
  then show "length evs = length (groupings self (list_prefix mn mv))"
    by (simp add: list_evaluations_Inr)
  show "\<forall>k<length evs.
         s3_get_object self (summary_key (groupings self (list_prefix mn mv) ! k)) = Get_ClientError \<longrightarrow>
         evs ! k = fallback_metadata (groupings self (list_prefix mn mv) ! k)"
    using r by (simp add: list_evaluations_Inr fetch_metadata_missing)
next
  assume a: "raised (s3_paginate self (list_prefix mn mv)) = None \<and>
    (\<forall>g\<in>set (groupings self (list_prefix mn mv)).
       s3_get_object self (summary_key g) = Get_ClientError \<or>
       (\<exists>body d. s3_get_object self (summary_key g) = Get_body body \<and> loads body = Some (PDict d)))"
  then have "\<forall>g\<in>set (groupings self (list_prefix mn mv)). \<exists>md. fetch_metadata self loads g = Inr md"
    using fetch_metadata_missing fetch_metadata_object by blast
  then show "\<exists>evs. list_evaluations self loads mn mv = Inr evs"
    using a by (simp add: list_evaluations_Inr)
next
  assume a: "g \<in> set (groupings self (list_prefix mn mv)) \<and>
    (s3_get_object self (summary_key g) = Get_other_error \<or>
     (\<exists>body. s3_get_object self (summary_key g) = Get_body body \<and>
             (\<forall>d. loads body \<noteq> Some (PDict d))))"
  then obtain err where err: "fetch_metadata self loads g = Inl err"
    using fetch_metadata_unreadable[of self g loads] by blast
  show "\<exists>err. list_evaluations self loads mn mv = Inl err"
  proof (cases "list_evaluations self loads mn mv")
    case (Inl e)
    then show ?thesis by blast
  next
    case (Inr evs')
    then have "\<exists>md. fetch_metadata self loads g = Inr md"
      using a by (simp add: list_evaluations_Inr)
    then show ?thesis using err by simp
  qed
qed

text \<open>
  Claim C6. The query prefix is \<^verbatim>\<open>evaluations/\<close> when no model name is given (absent or
  empty), whatever the version filter; \<^verbatim>\<open>evaluations/{model_name}/\<close> when only a model name
  is given; and \<^verbatim>\<open>evaluations/{model_name}/{model_version}/\<close> when both are given. It is
  the prefix the listing passes to the store, and a version filter without a model name
  changes nothing. Every entry of a listing that returns carries under \<^verbatim>\<open>s3_prefix\<close> the
  common prefix the store returned for it, so when the store returns only common prefixes
  that extend the prefix it was asked for, as the object store's listing does, every
  grouping in the result has a storage prefix extending the query prefix.
\<close>

theorem C6_list_query_prefix:
  "list_prefix None mv = ''evaluations/'' \<and>
   list_prefix (Some []) mv = ''evaluations/'' \<and>
   (n \<noteq> [] \<longrightarrow>
      list_prefix (Some n) None = ''evaluations/'' @ n @ ''/'' \<and>
      list_prefix (Some n) (Some []) = ''evaluations/'' @ n @ ''/'' \<and>
      (v \<noteq> [] \<longrightarrow> list_prefix (Some n) (Some v) = ''evaluations/'' @ n @ ''/'' @ v @ ''/'')) \<and>
   list_evaluations self loads mn mv =
     list_pages self loads (s3_paginate self (list_prefix mn mv)) [] \<and>
   list_evaluations self loads None mv = list_evaluations self loads None None \<and>
   ((\<forall>g\<in>set (groupings self (list_prefix mn mv)). prefix (list_prefix mn mv) g) \<and>
    list_evaluations self loads mn mv = Inr evs \<longrightarrow>
      length evs = length (groupings self (list_prefix mn mv)) \<and>
      (\<forall>k<length evs.
         map_of (evs ! k) ''s3_prefix'' = Some (PStr (groupings self (list_prefix mn mv) ! k)) \<and>
         prefix (list_prefix mn mv) (groupings self (list_prefix mn mv) ! k)))"
proof (intro conjI impI)
  show "list_prefix None mv = ''evaluations/''" "list_prefix (Some []) mv = ''evaluations/''"
    by (simp_all add: list_prefix_def truthy_def)
  show "list_evaluations self loads mn mv =
     list_pages self loads (s3_paginate self (list_prefix mn mv)) []"
    by (simp add: list_evaluations_def)
  show "list_evaluations self loads None mv = list_evaluations self loads None None"
    by (simp add: list_evaluations_def list_prefix_def truthy_def)
next
  assume "n \<noteq> []"
  then show "list_prefix (Some n) None = ''evaluations/'' @ n @ ''/''"
    and "list_prefix (Some n) (Some []) = ''evaluations/'' @ n @ ''/''"
    by (simp_all add: list_prefix_def truthy_def py_format_def)
next
  assume "n \<noteq> []" "v \<noteq> []"
  then show "list_prefix (Some n) (Some v) = ''evaluations/'' @ n @ ''/'' @ v @ ''/''"
    by (simp add: list_prefix_def truthy_def py_format_def)
next
  let ?gs = "groupings self (list_prefix mn mv)"
  assume a: "(\<forall>g\<in>set ?gs. prefix (list_prefix mn mv) g) \<and>
    list_evaluations self loads mn mv = Inr evs"
  then have ok: "\<forall>g\<in>set ?gs. \<exists>md. fetch_metadata self loads g = Inr md"
    and evs: "evs = map (\<lambda>g. projr (fetch_metadata self loads g)) ?gs"
    by (simp_all add: list_evaluations_Inr)
  show "length evs = length ?gs"
    by (simp add: evs)
  show "\<forall>k<length evs.
         map_of (evs ! k) ''s3_prefix'' = Some (PStr (?gs ! k)) \<and>
         prefix (list_prefix mn mv) (?gs ! k)"
  proof (intro allI impI)
    fix k assume "k < length evs"
    then have k: "k < length ?gs" by (simp add: evs)
    then have mem: "?gs ! k \<in> set ?gs" by simp
    then obtain md where md: "fetch_metadata self loads (?gs ! k) = Inr md"
      using ok by blast
    have "evs ! k = md"
      using k md by (simp add: evs)
    then show "map_of (evs ! k) ''s3_prefix'' = Some (PStr (?gs ! k)) \<and>
         prefix (list_prefix mn mv) (?gs ! k)"
      using fetch_metadata_s3_prefix[OF md] a mem by blast
  qed
qed

lemma example_groupings:
  "groupings example_storage (list_prefix (Some ''granite'') None) =
     [''evaluations/granite/2.0/'', ''evaluations/granite/2.1/'']"
  by (simp add: groupings_def list_prefix_def truthy_def py_format_def example_storage_def
      common_prefixes_def)

lemma example_listing_returned:
  "list_evaluations example_storage example_loads (Some ''granite'') None = Inr example_listing"
  by (simp add: list_evaluations_def list_prefix_def truthy_def py_format_def example_storage_def
      common_prefixes_def fetch_metadata_def summary_key_def example_loads_def example_listing_def)

lemma unreadable_groupings:
  "groupings unreadable_storage (list_prefix None None) = [''evaluations/granite/'']"
  by (simp add: groupings_def list_prefix_def truthy_def unreadable_storage_def common_prefixes_def)

theorem C4_missing_summary_falls_back_witness:
  "s3_get_object example_storage (summary_key ''evaluations/granite/2.0/'') = Get_ClientError \<and>
   fetch_metadata example_storage example_loads ''evaluations/granite/2.0/'' =
     Inr (fallback_metadata ''evaluations/granite/2.0/'') \<and>
   list_evaluations example_storage example_loads (Some ''granite'') None = Inr example_listing \<and>
   length example_listing = 2 \<and>
   example_listing ! 0 = fallback_metadata ''evaluations/granite/2.0/'' \<and>
   ''evaluations/granite/'' \<in> set (groupings unreadable_storage (list_prefix None None)) \<and>
   s3_get_object unreadable_storage (summary_key ''evaluations/granite/'') = Get_body ''not json'' \<and>
   example_loads ''not json'' = None \<and>
   (\<exists>err. list_evaluations unreadable_storage example_loads None None = Inl err)"
proof -
  have m: "s3_get_object example_storage (summary_key ''evaluations/granite/2.0/'') = Get_ClientError"
    by (simp add: example_storage_def summary_key_def)
  note inst = C4_missing_summary_falls_back[where self=example_storage and loads=example_loads
      and g="''evaluations/granite/2.0/''" and mn="Some ''granite''" and mv=None
      and evs=example_listing]
  have f: "fetch_metadata example_storage example_loads ''evaluations/granite/2.0/'' =
     Inr (fallback_metadata ''evaluations/granite/2.0/'')"
    using inst m by blast
  have l: "length example_listing = 2"
    using inst example_listing_returned by (simp add: example_groupings)
  have "\<forall>k<length example_listing.
      s3_get_object example_storage (summary_key
        (groupings example_storage (list_prefix (Some ''granite'') None) ! k)) = Get_ClientError \<longrightarrow>
      example_listing ! k = fallback_metadata
        (groupings example_storage (list_prefix (Some ''granite'') None) ! k)"
    using inst example_listing_returned by blast
  then have z: "example_listing ! 0 = fallback_metadata ''evaluations/granite/2.0/''"
    using m l by (simp add: example_groupings)
  have u: "''evaluations/granite/'' \<in> set (groupings unreadable_storage (list_prefix None None))"
    by (simp add: unreadable_groupings)
  have b: "s3_get_object unreadable_storage (summary_key ''evaluations/granite/'') = Get_body ''not json''"
    by (simp add: unreadable_storage_def)
  have n: "example_loads ''not json'' = None"
    by (simp add: example_loads_def)
  have "\<forall>d. example_loads ''not json'' \<noteq> Some (PDict d)"
    by (simp add: n)
  then have x: "\<exists>err. list_evaluations unreadable_storage example_loads None None = Inl err"
    using C4_missing_summary_falls_back[where self=unreadable_storage and loads=example_loads
        and g="''evaluations/granite/''" and mn=None and mv=None] u b
    by blast
  show ?thesis
    using m f example_listing_returned l z u b n x by simp
qed

theorem C4_unreadable_summary_aborts_counterexample:
  "groupings unreadable_storage (list_prefix None None) = [''evaluations/granite/''] \<and>
   s3_get_object unreadable_storage (summary_key ''evaluations/granite/'') = Get_body ''not json'' \<and>
   example_loads ''not json'' = None \<and>
   list_evaluations unreadable_storage example_loads None None = Inl JSONDecodeError"
  by (simp add: unreadable_groupings)
     (simp add: list_evaluations_def list_prefix_def truthy_def unreadable_storage_def
        common_prefixes_def fetch_metadata_def summary_key_def example_loads_def)

theorem C6_list_query_prefix_witness:
  "list_prefix (Some ''granite'') None = ''evaluations/granite/'' \<and>
   list_prefix (Some ''granite'') (Some ''2.1'') = ''evaluations/granite/2.1/'' \<and>
   list_evaluations example_storage example_loads (Some ''granite'') None = Inr example_listing \<and>
   map_of (example_listing ! 1) ''s3_prefix'' = Some (PStr ''evaluations/granite/2.1/'') \<and>
   prefix ''evaluations/granite/'' ''evaluations/granite/2.1/''"
proof -
  note inst = C6_list_query_prefix[where self=example_storage and loads=example_loads
      and mn="Some ''granite''" and mv=None and evs=example_listing and n="''granite''"
      and v="''2.1''"]
  have p: "list_prefix (Some ''granite'') None = ''evaluations/granite/''"
    "list_prefix (Some ''granite'') (Some ''2.1'') = ''evaluations/granite/2.1/''"
    using inst by simp_all
  have c: "\<forall>g\<in>set (groupings example_storage (list_prefix (Some ''granite'') None)).
      prefix (list_prefix (Some ''granite'') None) g"
    unfolding example_groupings by (simp add: p)
  have "length example_listing = length (groupings example_storage (list_prefix (Some ''granite'') None)) \<and>
      (\<forall>k<length example_listing.
         map_of (example_listing ! k) ''s3_prefix'' =
           Some (PStr (groupings example_storage (list_prefix (Some ''granite'') None) ! k)) \<and>
         prefix (list_prefix (Some ''granite'') None)
           (groupings example_storage (list_prefix (Some ''granite'') None) ! k))"
    using inst c example_listing_returned by blast
  then have "map_of (example_listing ! 1) ''s3_prefix'' = Some (PStr ''evaluations/granite/2.1/'') \<and>
      prefix ''evaluations/granite/'' ''evaluations/granite/2.1/''"
    unfolding example_groupings by (simp add: p)
  then show ?thesis
    using p example_listing_returned by simp
qed

subsection \<open>The two locators\<close>

text \<open>
  Claim C1, evaluated where it fails. With \<^verbatim>\<open>S3_BUCKET=models\<close>,
  \<^verbatim>\<open>MODEL_NAME=Granite-7B\<close> and \<^verbatim>\<open>MODEL_VERSION=2.1\<close>, the Model Uploader writes
  \<^verbatim>\<open>s3://models/model-data/Granite-7B/2.1\<close> to the locator file; with the same environment
  and that file absent, the Registry Registrar constructs and registers
  \<^verbatim>\<open>s3://models/model-data/granite-7b/2.1\<close>. The two locators agree exactly when
  lowercasing leaves the model name unchanged (\<open>locators_agree_iff\<close>).
\<close>

theorem C1_locators_differ_on_mixed_case:
  "environ example_world ''S3_BUCKET'' = Some ''models'' \<and>
   environ example_world ''MODEL_NAME'' = Some ''Granite-7B'' \<and>
   environ example_world ''MODEL_VERSION'' = Some ''2.1'' \<and>
   files example_world uri_file = None \<and>
   filter is_write (snd (upload_model example_world)) =
     [Write_file uri_file ''s3://models/model-data/Granite-7B/2.1''] \<and>
   Print ''Constructed S3 URI: {s3_uri}'' [Str ''s3://models/model-data/granite-7b/2.1'']
     \<in> set (snd (register_s3_model example_world)) \<and>
   uploader_uri ''models'' ''Granite-7B'' ''2.1'' \<noteq>
     registrar_uri ''models'' (registrar_model_name ''Granite-7B'') (Some ''2.1'')"
proof -
  have env: "environ example_world ''S3_BUCKET'' = Some ''models''"
    "environ example_world ''MODEL_NAME'' = Some ''Granite-7B''"
    "environ example_world ''MODEL_VERSION'' = Some ''2.1''"
    "files example_world uri_file = None"
    by (simp_all add: example_world_def example_environ_def uri_file_def namespace_file_def)
  have ok: "\<forall>e\<in>set example_tree. is_file e \<longrightarrow>
      upload_file example_world (model_key (model_prefix ''Granite-7B'' ''2.1'') e) = Upload_ok"
    by (simp add: example_world_def)
  have wr: "writable example_world uri_file"
    by (simp add: example_world_def)
  have up: "filter is_write (snd (upload_model example_world)) =
     [Write_file uri_file ''s3://models/model-data/Granite-7B/2.1'']"
    using upload_model_success(4)[OF example_world_connected example_world_tree ok wr]
    by (simp add: uploader_uri_def model_prefix_def)
  have reg: "Print ''Constructed S3 URI: {s3_uri}'' [Str ''s3://models/model-data/granite-7b/2.1'']
     \<in> set (snd (register_s3_model example_world))"
    by (simp add: register_s3_model_def register_configured_def resolve_s3_uri_def
        register_stage_def registrar_prelude_def registrar_uri_def registrar_model_name_def
        py_lower_example py_format_def truthy_def environ_get_def skip_requested_def
        example_world_def example_environ_def example_version_def uri_file_def namespace_file_def
        Let_def)
  have ne: "uploader_uri ''models'' ''Granite-7B'' ''2.1'' \<noteq>
     registrar_uri ''models'' (registrar_model_name ''Granite-7B'') (Some ''2.1'')"
    by (simp add: locators_agree_iff py_lower_example)
  show ?thesis
    using env up reg ne by simp
qed

end
